theory Spec2Isabelle
  imports Complex_Main
begin

section \<open>Python values\<close>

text \<open>
  The wallet code of \<^verbatim>\<open>intentkit/core/agent/wallet.py\<close> and
  \<^verbatim>\<open>intentkit/clients/cdp.py\<close> raises exceptions, reads JSON text, and
  compares spending limits through \<^verbatim>\<open>decimal.Decimal\<close>. Exceptions are values of
  \<open>error\<close>; a fallible computation returns \<open>error + 'a\<close>.
\<close>

datatype error =
    IntentKitAPIError nat string string
  | ValueError string
  | JSONDecodeError
  | AttributeError
  | KeyError string
  | TypeError
  | InvalidOperation
  | ServiceError string

text \<open>
  A Python \<^verbatim>\<open>float\<close> enters the code only through \<^verbatim>\<open>str(x)\<close>: the shortest
  decimal numeral that reads back as \<open>x\<close>. \<open>FFin c e\<close> is the float whose numeral is
  \<open>c \<times> 10\<^sup>e\<close> (\<^verbatim>\<open>100.0\<close> is \<open>FFin 1000 (-1)\<close>, \<^verbatim>\<open>1e+23\<close> is \<open>FFin 1 23\<close>);
  \<open>FInf\<close> carries the sign of an infinity, \<open>FNaN\<close> is not-a-number.
\<close>

datatype pyfloat = FFin int int | FInf bool | FNaN

datatype pyval =
    PNone
  | PBool bool
  | PInt int
  | PFloat pyfloat
  | PStr string
  | PList "pyval list"
  | PDict "(string \<times> pyval) list"

fun float_truthy :: "pyfloat \<Rightarrow> bool" where
  "float_truthy (FFin c e) = (c \<noteq> 0)"
| "float_truthy (FInf neg) = True"
| "float_truthy FNaN = True"

fun py_truthy :: "pyval \<Rightarrow> bool" where
  "py_truthy PNone = False"
| "py_truthy (PBool b) = b"
| "py_truthy (PInt i) = (i \<noteq> 0)"
| "py_truthy (PFloat f) = float_truthy f"
| "py_truthy (PStr s) = (s \<noteq> [])"
| "py_truthy (PList xs) = (xs \<noteq> [])"
| "py_truthy (PDict kvs) = (kvs \<noteq> [])"

definition str_truthy :: "string option \<Rightarrow> bool" where
  "str_truthy s = (case s of None \<Rightarrow> False | Some t \<Rightarrow> t \<noteq> [])"

definition of_str_opt :: "string option \<Rightarrow> pyval" where
  "of_str_opt s = (case s of None \<Rightarrow> PNone | Some t \<Rightarrow> PStr t)"

text \<open>\<^verbatim>\<open>d.get(key)\<close>: the value, \<^verbatim>\<open>None\<close> for a missing key, and
  \<^verbatim>\<open>AttributeError\<close> when \<open>d\<close> is not a dict.\<close>

fun dict_get :: "pyval \<Rightarrow> string \<Rightarrow> error + pyval" where
  "dict_get (PDict kvs) k = Inr (case map_of kvs k of None \<Rightarrow> PNone | Some v \<Rightarrow> v)"
| "dict_get v k = Inl AttributeError"

text \<open>\<^verbatim>\<open>d[key]\<close> on a dict: \<^verbatim>\<open>KeyError\<close> for a missing key.\<close>

definition dict_index :: "(string \<times> pyval) list \<Rightarrow> string \<Rightarrow> error + pyval" where
  "dict_index kvs k = (case map_of kvs k of None \<Rightarrow> Inl (KeyError k) | Some v \<Rightarrow> Inr v)"

definition startswith :: "string \<Rightarrow> string \<Rightarrow> bool" where
  "startswith s p = (take (length p) s = p)"

subsection \<open>Decimal quantisation\<close>

text \<open>
  \<^verbatim>\<open>Decimal(str(x)).quantize(Decimal("0.000001"))\<close> under the default context
  (28 digits, round-half-even). The result is kept in millionths. A quiet NaN passes
  through; an infinity, and a finite value whose quantised coefficient would need more
  than 28 digits, signal \<^verbatim>\<open>InvalidOperation\<close>.
\<close>

datatype decimal6 = DNaN | DMicro int

definition round_half_even_div :: "int \<Rightarrow> int \<Rightarrow> int" where
  "round_half_even_div c d =
     (let q = c div d; r = c mod d
      in if 2 * r < d then q
         else if 2 * r > d then q + 1
         else if even q then q else q + 1)"

definition micro_units :: "int \<Rightarrow> int \<Rightarrow> int" where
  "micro_units c e =
     (if 0 \<le> e + 6 then c * 10 ^ nat (e + 6)
      else round_half_even_div c (10 ^ nat (- (e + 6))))"

fun quantize6 :: "pyfloat \<Rightarrow> error + decimal6" where
  "quantize6 (FFin c e) =
     (let n = micro_units c e
      in if 10 ^ 28 \<le> \<bar>n\<bar> then Inl InvalidOperation else Inr (DMicro n))"
| "quantize6 (FInf neg) = Inl InvalidOperation"
| "quantize6 FNaN = Inr DNaN"

text \<open>The conditional expression of lines 32-41: \<^verbatim>\<open>None\<close> stays \<^verbatim>\<open>None\<close>.\<close>

definition quantize_limit :: "pyfloat option \<Rightarrow> error + decimal6 option" where
  "quantize_limit l =
     (case l of
        None \<Rightarrow> Inr None
      | Some x \<Rightarrow> (case quantize6 x of Inl e \<Rightarrow> Inl e | Inr d \<Rightarrow> Inr (Some d)))"

text \<open>\<^verbatim>\<open>old_limit != new_limit\<close>: \<^verbatim>\<open>None\<close> equals only \<^verbatim>\<open>None\<close>, a NaN
  differs from everything, itself included.\<close>

fun decimal_ne :: "decimal6 option \<Rightarrow> decimal6 option \<Rightarrow> bool" where
  "decimal_ne None None = False"
| "decimal_ne (Some (DMicro a)) (Some (DMicro b)) = (a \<noteq> b)"
| "decimal_ne x y = True"

text \<open>The value of a float's numeral as a rational, for statements about distances.\<close>

fun float_value :: "pyfloat \<Rightarrow> rat option" where
  "float_value (FFin c e) =
     Some (if 0 \<le> e then of_int c * 10 ^ nat e else of_int c / 10 ^ nat (- e))"
| "float_value f = None"

section \<open>Agents, wallet records and collaborators\<close>

record agent =
  agent_id :: string
  wallet_provider :: "string option"
  weekly_spending_limit :: "pyfloat option"
  network_id :: "string option"
  cdp_network_id :: "string option"
  owner :: "string option"
  readonly_wallet_address :: "string option"

record agent_data =
  data_id :: string
  evm_wallet_address :: pyval
  privy_wallet_data :: "string option"
  native_wallet_data :: "string option"
  cdp_wallet_data :: "string option"

record safe_wallet_args =
  arg_agent_id :: string
  arg_network_id :: pyval
  arg_rpc_url :: "string option"
  arg_weekly_spending_limit_usdc :: "pyfloat option"
  arg_existing_privy_wallet_id :: pyval
  arg_existing_privy_wallet_address :: pyval

record privy_wallet =
  pw_id :: string
  pw_address :: string

text \<open>Every call that leaves the process, and every store write, is logged.\<close>

datatype event =
    EvGetChainConfig pyval
  | EvCreatePrivySafeWallet safe_wallet_args
  | EvCreateKeyQuorum "string list" "string list option" nat string
  | EvCreateWallet string
  | EvCdpWalletProvider string
  | EvCreateNativeWallet string
  | EvImportAccount string string
  | EvCreateAccount string
  | EvCdpClose
  | EvStoreWrite string

record pstate =
  store :: "string \<Rightarrow> agent_data"
  trace :: "event list"

text \<open>
  The collaborators whose code is outside the repository's sources, taken as
  parameters: the system configuration, \<^verbatim>\<open>json\<close>, the chain provider, the modules
  \<^verbatim>\<open>intentkit.wallets.privy\<close>, \<^verbatim>\<open>intentkit.wallets.native\<close> and
  \<^verbatim>\<open>intentkit.wallets.cdp\<close>, and the custody SDK. A call that raises returns \<open>Inl\<close>.
\<close>

record world =
  cdp_api_key_id :: "string option"
  chain_provider :: "(pyval \<Rightarrow> error + string option) option"
  json_loads :: "string \<Rightarrow> pyval option"
  json_dumps :: "pyval \<Rightarrow> string"
  create_privy_safe_wallet :: "safe_wallet_args \<Rightarrow> error + (string \<times> pyval) list"
  get_authorization_public_keys :: "string list"
  create_key_quorum :: "string list \<Rightarrow> string list option \<Rightarrow> nat \<Rightarrow> string \<Rightarrow> error + string"
  create_wallet :: "string \<Rightarrow> error + privy_wallet"
  create_native_wallet :: "string \<Rightarrow> error + (string \<times> pyval) list"
  get_cdp_wallet_provider :: "agent \<Rightarrow> (string \<Rightarrow> agent_data) \<Rightarrow> error + (string \<Rightarrow> agent_data)"

text \<open>
  Modelled from the spec: the persistent agent-wallet store (\<^verbatim>\<open>AgentData.get\<close>,
  \<^verbatim>\<open>AgentData.patch\<close>), whose class is not among the sources. \<open>get\<close> returns the
  agent's record; \<open>patch\<close> overwrites the named fields atomically, validates nothing,
  and returns the patched record.
\<close>

definition AgentData_get :: "string \<Rightarrow> pstate \<Rightarrow> agent_data" where
  "AgentData_get aid s = store s aid"

record patch_fields =
  patch_evm_wallet_address :: "pyval option"
  patch_privy_wallet_data :: "string option"
  patch_native_wallet_data :: "string option"

definition AgentData_patch :: "string \<Rightarrow> patch_fields \<Rightarrow> pstate \<Rightarrow> agent_data \<times> pstate" where
  "AgentData_patch aid p s =
     (let r = store s aid;
          r1 = (case patch_evm_wallet_address p of
                  None \<Rightarrow> r | Some v \<Rightarrow> r\<lparr>evm_wallet_address := v\<rparr>);
          r2 = (case patch_privy_wallet_data p of
                  None \<Rightarrow> r1 | Some t \<Rightarrow> r1\<lparr>privy_wallet_data := Some t\<rparr>);
          r3 = (case patch_native_wallet_data p of
                  None \<Rightarrow> r2 | Some t \<Rightarrow> r2\<lparr>native_wallet_data := Some t\<rparr>)
      in (r3, s\<lparr>store := (store s)(aid := r3), trace := trace s @ [EvStoreWrite aid]\<rparr>))"

definition log_event :: "event \<Rightarrow> pstate \<Rightarrow> pstate" where
  "log_event ev s = s\<lparr>trace := trace s @ [ev]\<rparr>"

section \<open>The wallet provisioner: \<^verbatim>\<open>process_agent_wallet\<close>\<close>

text \<open>The error of lines 48-52, which the specification calls \<^verbatim>\<open>ProviderImmutable\<close>.\<close>

definition ProviderImmutable :: error where
  "ProviderImmutable =
     IntentKitAPIError 400 ''WalletProviderChangeNotAllowed''
       ''Cannot change wallet provider once set''"

text \<open>
  Lines 76-91 and 134-141: the RPC URL comes from the chain provider when one is
  configured; any exception of the lookup is logged and swallowed.
\<close>

definition lookup_rpc_url :: "world \<Rightarrow> pyval \<Rightarrow> pstate \<Rightarrow> string option \<times> pstate" where
  "lookup_rpc_url w net s =
     (case chain_provider w of
        None \<Rightarrow> (None, s)
      | Some get_chain_config \<Rightarrow>
          (case get_chain_config net of
             Inl e \<Rightarrow> (None, log_event (EvGetChainConfig net) s)
           | Inr url \<Rightarrow> (url, log_event (EvGetChainConfig net) s)))"

text \<open>\<^verbatim>\<open>a or b\<close> on an optional string and a Python value.\<close>

definition str_or :: "string option \<Rightarrow> pyval \<Rightarrow> pyval" where
  "str_or a b = (if str_truthy a then of_str_opt a else b)"

definition py_or :: "pyval \<Rightarrow> pyval \<Rightarrow> pyval" where
  "py_or a b = (if py_truthy a then a else b)"

text \<open>
  Lines 93-112 and 202-216: call \<^verbatim>\<open>create_privy_safe_wallet\<close>, then patch the address
  and the serialised wallet data into the store.
\<close>

definition deploy_and_patch ::
  "world \<Rightarrow> agent \<Rightarrow> safe_wallet_args \<Rightarrow> pstate \<Rightarrow> (error + agent_data) \<times> pstate" where
  "deploy_and_patch w a args s =
     (let s1 = log_event (EvCreatePrivySafeWallet args) s
      in case create_privy_safe_wallet w args of
           Inl e \<Rightarrow> (Inl e, s1)
         | Inr wallet_data \<Rightarrow>
             (case dict_index wallet_data ''smart_wallet_address'' of
                Inl e \<Rightarrow> (Inl e, s1)
              | Inr addr \<Rightarrow>
                  (let (r, s2) = AgentData_patch (agent_id a)
                         \<lparr>patch_evm_wallet_address = Some addr,
                          patch_privy_wallet_data = Some (json_dumps w (PDict wallet_data)),
                          patch_native_wallet_data = None\<rparr> s1
                   in (Inr r, s2))))"

text \<open>
  Lines 60-113: the provider kind is unchanged, it is \<^verbatim>\<open>safe\<close> or \<^verbatim>\<open>privy\<close>,
  and the quantised limits differ. Only a \<^verbatim>\<open>safe\<close> agent whose stored Privy data
  names a wallet id and a wallet address re-enters \<^verbatim>\<open>create_privy_safe_wallet\<close>, with
  that wallet; every other path falls through to line 113 and returns the stored record.
  A \<^verbatim>\<open>JSONDecodeError\<close> is caught (the data then reads as an empty dict); a value
  that is not a dict has no \<^verbatim>\<open>get\<close>.
\<close>

definition update_spending_limit ::
  "world \<Rightarrow> agent \<Rightarrow> pstate \<Rightarrow> (error + agent_data) \<times> pstate" where
  "update_spending_limit w a s =
     (let agent_data = AgentData_get (agent_id a) s
      in if str_truthy (privy_wallet_data agent_data) then
           if wallet_provider a = Some ''safe'' then
             (let pwd = (case json_loads w (the (privy_wallet_data agent_data)) of
                           None \<Rightarrow> PDict [] | Some v \<Rightarrow> v)
              in case dict_get pwd ''privy_wallet_id'' of
                   Inl e \<Rightarrow> (Inl e, s)
                 | Inr wid \<Rightarrow>
                     (case dict_get pwd ''privy_wallet_address'' of
                        Inl e \<Rightarrow> (Inl e, s)
                      | Inr waddr \<Rightarrow>
                          if py_truthy wid \<and> py_truthy waddr
                          then
                            (case dict_get pwd ''network_id'' of
                               Inl e \<Rightarrow> (Inl e, s)
                             | Inr stored_net \<Rightarrow>
                                 (let net = str_or (network_id a)
                                              (py_or stored_net (PStr ''base-mainnet''));
                                      (rpc_url, s1) = lookup_rpc_url w net s
                                  in deploy_and_patch w a
                                       \<lparr>arg_agent_id = agent_id a,
                                        arg_network_id = net,
                                        arg_rpc_url = rpc_url,
                                        arg_weekly_spending_limit_usdc =
                                          (case weekly_spending_limit a of
                                             None \<Rightarrow> Some (FFin 0 (- 1))
                                           | Some l \<Rightarrow> Some l),
                                        arg_existing_privy_wallet_id = wid,
                                        arg_existing_privy_wallet_address = waddr\<rparr> s1))
                          else (Inr (AgentData_get (agent_id a) s), s)))
           else (Inr (AgentData_get (agent_id a) s), s)
         else (Inr (AgentData_get (agent_id a) s), s))"

text \<open>
  Lines 159-185 and 218-244 (the same statements twice): the owner must be a Privy
  user; a key quorum and then a custody wallet are created for it.
\<close>

definition create_owner_wallet ::
  "world \<Rightarrow> agent \<Rightarrow> pstate \<Rightarrow> (error + string \<times> privy_wallet) \<times> pstate" where
  "create_owner_wallet w a s =
     (if \<not> str_truthy (owner a) then
        (Inl (IntentKitAPIError 400 ''PrivyUserIdMissing''
               ''Agent owner (Privy user ID) is required for Privy wallets''), s)
      else if \<not> startswith (the (owner a)) ''did:privy:'' then
        (Inl (IntentKitAPIError 400 ''PrivyUserIdInvalid''
               ''Only Privy-authenticated users (did:privy:...) can create Privy wallets''), s)
      else
        (let server_public_keys = get_authorization_public_keys w;
             public_keys = (if server_public_keys \<noteq> [] then Some server_public_keys else None);
             display_name = ''intentkit:'' @ take 40 (agent_id a);
             s1 = log_event (EvCreateKeyQuorum [the (owner a)] public_keys 1 display_name) s
         in case create_key_quorum w [the (owner a)] public_keys 1 display_name of
              Inl e \<Rightarrow> (Inl e, s1)
            | Inr owner_key_quorum_id \<Rightarrow>
                (let s2 = log_event (EvCreateWallet owner_key_quorum_id) s1
                 in case create_wallet w owner_key_quorum_id of
                      Inl e \<Rightarrow> (Inl e, s2)
                    | Inr pw \<Rightarrow> (Inr (owner_key_quorum_id, pw), s2))))"

text \<open>
  Lines 143-156: the wallet id and address of an earlier, partial run. A
  \<^verbatim>\<open>JSONDecodeError\<close> is caught and leaves both \<^verbatim>\<open>None\<close>.
\<close>

definition existing_privy_wallet :: "world \<Rightarrow> agent_data \<Rightarrow> error + pyval \<times> pyval" where
  "existing_privy_wallet w agent_data =
     (if str_truthy (privy_wallet_data agent_data) then
        (case json_loads w (the (privy_wallet_data agent_data)) of
           None \<Rightarrow> Inr (PNone, PNone)
         | Some partial_data \<Rightarrow>
             (case dict_get partial_data ''privy_wallet_id'' of
                Inl e \<Rightarrow> Inl e
              | Inr wid \<Rightarrow>
                  (case dict_get partial_data ''privy_wallet_address'' of
                     Inl e \<Rightarrow> Inl e
                   | Inr waddr \<Rightarrow> Inr (wid, waddr))))
      else Inr (PNone, PNone))"

text \<open>Lines 131-216: the \<^verbatim>\<open>safe\<close> provider.\<close>

definition provision_safe ::
  "world \<Rightarrow> agent \<Rightarrow> agent_data \<Rightarrow> pstate \<Rightarrow> (error + agent_data) \<times> pstate" where
  "provision_safe w a agent_data s =
     (let net = (if str_truthy (network_id a) then the (network_id a) else ''base-mainnet'');
          (rpc_url, s1) = lookup_rpc_url w (PStr net) s
      in case existing_privy_wallet w agent_data of
           Inl e \<Rightarrow> (Inl e, s1)
         | Inr (wid, waddr) \<Rightarrow>
             if \<not> py_truthy wid then
               (case create_owner_wallet w a s1 of
                  (Inl e, s2) \<Rightarrow> (Inl e, s2)
                | (Inr (owner_key_quorum_id, pw), s2) \<Rightarrow>
                    (let partial_wallet_data =
                           PDict [(''privy_wallet_id'', PStr (pw_id pw)),
                                  (''privy_wallet_address'', PStr (pw_address pw)),
                                  (''owner_key_quorum_id'', PStr owner_key_quorum_id),
                                  (''network_id'', PStr net),
                                  (''status'', PStr ''privy_created'')];
                         (r, s3) = AgentData_patch (agent_id a)
                           \<lparr>patch_evm_wallet_address = None,
                            patch_privy_wallet_data = Some (json_dumps w partial_wallet_data),
                            patch_native_wallet_data = None\<rparr> s2
                     in deploy_and_patch w a
                          \<lparr>arg_agent_id = agent_id a,
                           arg_network_id = PStr net,
                           arg_rpc_url = rpc_url,
                           arg_weekly_spending_limit_usdc = weekly_spending_limit a,
                           arg_existing_privy_wallet_id = PStr (pw_id pw),
                           arg_existing_privy_wallet_address = PStr (pw_address pw)\<rparr> s3))
             else
               deploy_and_patch w a
                 \<lparr>arg_agent_id = agent_id a,
                  arg_network_id = PStr net,
                  arg_rpc_url = rpc_url,
                  arg_weekly_spending_limit_usdc = weekly_spending_limit a,
                  arg_existing_privy_wallet_id = wid,
                  arg_existing_privy_wallet_address = waddr\<rparr> s1)"

text \<open>Lines 217-264: the \<^verbatim>\<open>privy\<close> provider, a custody wallet without a Safe.\<close>

definition provision_privy ::
  "world \<Rightarrow> agent \<Rightarrow> pstate \<Rightarrow> (error + agent_data) \<times> pstate" where
  "provision_privy w a s =
     (case create_owner_wallet w a s of
        (Inl e, s1) \<Rightarrow> (Inl e, s1)
      | (Inr (owner_key_quorum_id, pw), s1) \<Rightarrow>
          (let wallet_data =
                 PDict [(''privy_wallet_id'', PStr (pw_id pw)),
                        (''privy_wallet_address'', PStr (pw_address pw)),
                        (''owner_key_quorum_id'', PStr owner_key_quorum_id),
                        (''network_id'',
                           PStr (if str_truthy (network_id a) then the (network_id a)
                                 else ''base-mainnet'')),
                        (''provider'', PStr ''privy''),
                        (''status'', PStr ''created'')];
               (r, s2) = AgentData_patch (agent_id a)
                 \<lparr>patch_evm_wallet_address = Some (PStr (pw_address pw)),
                  patch_privy_wallet_data = Some (json_dumps w wallet_data),
                  patch_native_wallet_data = None\<rparr> s1
           in (Inr r, s2)))"

text \<open>Lines 265-280: the \<^verbatim>\<open>native\<close> provider.\<close>

definition provision_native ::
  "world \<Rightarrow> agent \<Rightarrow> pstate \<Rightarrow> (error + agent_data) \<times> pstate" where
  "provision_native w a s =
     (let net = (if str_truthy (network_id a) then the (network_id a) else ''base-mainnet'');
          s1 = log_event (EvCreateNativeWallet net) s
      in case create_native_wallet w net of
           Inl e \<Rightarrow> (Inl e, s1)
         | Inr wallet_data \<Rightarrow>
             (case dict_index wallet_data ''address'' of
                Inl e \<Rightarrow> (Inl e, s1)
              | Inr addr \<Rightarrow>
                  (let (r, s2) = AgentData_patch (agent_id a)
                         \<lparr>patch_evm_wallet_address = Some addr,
                          patch_privy_wallet_data = None,
                          patch_native_wallet_data = Some (json_dumps w (PDict wallet_data))\<rparr> s1
                   in (Inr r, s2))))"

text \<open>Lines 119-123: the \<^verbatim>\<open>cdp\<close> provider, delegated to the custodial adapter.\<close>

definition provision_cdp ::
  "world \<Rightarrow> agent \<Rightarrow> pstate \<Rightarrow> (error + agent_data) \<times> pstate" where
  "provision_cdp w a s =
     (let s1 = log_event (EvCdpWalletProvider (agent_id a)) s
      in case get_cdp_wallet_provider w a (store s1) of
           Inl e \<Rightarrow> (Inl e, s1)
         | Inr st \<Rightarrow>
             (let s2 = s1\<lparr>store := st\<rparr>
              in (Inr (AgentData_get (agent_id a) s2), s2)))"

text \<open>
  Lines 115-282: the agent has no wallet address yet; dispatch on the provider kind.
  An agent whose kind matches no branch gets its record back as it is.
\<close>

definition dispatch_provider ::
  "world \<Rightarrow> agent \<Rightarrow> pstate \<Rightarrow> (error + agent_data) \<times> pstate" where
  "dispatch_provider w a s =
     (let agent_data = AgentData_get (agent_id a) s
      in if py_truthy (evm_wallet_address agent_data) then (Inr agent_data, s)
         else if str_truthy (cdp_api_key_id w) \<and> wallet_provider a = Some ''cdp'' then
           provision_cdp w a s
         else if wallet_provider a = Some ''readonly'' then
           (let (r, s1) = AgentData_patch (agent_id a)
                  \<lparr>patch_evm_wallet_address = Some (of_str_opt (readonly_wallet_address a)),
                   patch_privy_wallet_data = None,
                   patch_native_wallet_data = None\<rparr> s
            in (Inr r, s1))
         else if wallet_provider a = Some ''safe'' then provision_safe w a agent_data s
         else if wallet_provider a = Some ''privy'' then provision_privy w a s
         else if wallet_provider a = Some ''native'' then provision_native w a s
         else (Inr agent_data, s))"

text \<open>
  \<^verbatim>\<open>process_agent_wallet(agent, old_wallet_provider, old_weekly_spending_limit)\<close>.
  Both limits are quantised first (lines 32-41), then the provider kinds are compared
  (lines 43-52), then the unchanged-provider path (lines 54-113), then the dispatch.
\<close>

definition process_agent_wallet ::
  "world \<Rightarrow> agent \<Rightarrow> string option \<Rightarrow> pyfloat option \<Rightarrow> pstate
     \<Rightarrow> (error + agent_data) \<times> pstate" where
  "process_agent_wallet w a old_wallet_provider old_weekly_spending_limit s =
     (case quantize_limit old_weekly_spending_limit of
        Inl e \<Rightarrow> (Inl e, s)
      | Inr old_limit \<Rightarrow>
          (case quantize_limit (weekly_spending_limit a) of
             Inl e \<Rightarrow> (Inl e, s)
           | Inr new_limit \<Rightarrow>
               if old_wallet_provider \<noteq> None \<and> old_wallet_provider \<noteq> Some ''none''
                  \<and> old_wallet_provider \<noteq> wallet_provider a
               then (Inl ProviderImmutable, s)
               else if old_wallet_provider \<noteq> None \<and> old_wallet_provider \<noteq> Some ''none''
                       \<and> old_wallet_provider = wallet_provider a
               then
                 (if wallet_provider a \<in> {Some ''safe'', Some ''privy''}
                     \<and> decimal_ne old_limit new_limit
                  then update_spending_limit w a s
                  else (Inr (AgentData_get (agent_id a) s), s))
               else dispatch_provider w a s))"

section \<open>The custodial adapter: \<^verbatim>\<open>CdpClient.get_wallet_provider\<close>\<close>

text \<open>
  \<^verbatim>\<open>bip39_seed_to_eth_keys\<close> chains library calls (\<^verbatim>\<open>bytes.fromhex\<close>,
  \<^verbatim>\<open>BIP32\<close>, \<^verbatim>\<open>eth_keys\<close>, \<^verbatim>\<open>eth_utils\<close>); the libraries are parameters, byte
  strings are lists of numbers. \<^verbatim>\<open>bytes.fromhex\<close> and the key derivation can raise.
\<close>

record eth_keys =
  private_key :: string
  public_key :: string
  address :: string

record keylib =
  bytes_fromhex :: "string \<Rightarrow> nat list option"
  get_privkey_from_path :: "nat list \<Rightarrow> string \<Rightarrow> error + nat list"
  private_key_to_hex :: "nat list \<Rightarrow> string"
  public_key_of :: "nat list \<Rightarrow> nat list"
  public_key_to_hex :: "nat list \<Rightarrow> string"
  public_key_to_address :: "nat list \<Rightarrow> string"
  to_checksum_address :: "string \<Rightarrow> string"

text \<open>The standard Ethereum derivation path \<^verbatim>\<open>m/44'/60'/0'/0/0\<close>.\<close>

definition eth_derivation_path :: string where
  "eth_derivation_path =
     ''m/44'' @ [CHR 0x27] @ ''/60'' @ [CHR 0x27] @ ''/0'' @ [CHR 0x27] @ ''/0/0''"

definition bip39_seed_to_eth_keys :: "keylib \<Rightarrow> string \<Rightarrow> error + eth_keys" where
  "bip39_seed_to_eth_keys lib seed_hex =
     (case bytes_fromhex lib seed_hex of
        None \<Rightarrow> Inl (ValueError ''non-hexadecimal number found in fromhex() arg'')
      | Some seed_bytes \<Rightarrow>
          (case get_privkey_from_path lib seed_bytes eth_derivation_path of
             Inl e \<Rightarrow> Inl e
           | Inr private_key_bytes \<Rightarrow>
               (let pub = public_key_of lib private_key_bytes;
                    addr = public_key_to_address lib pub
                in Inr \<lparr>private_key = private_key_to_hex lib private_key_bytes,
                        public_key = public_key_to_hex lib pub,
                        address = to_checksum_address lib addr\<rparr>)))"

record provider_config =
  cfg_api_key_id :: "string option"
  cfg_api_key_secret :: "string option"
  cfg_network_id :: "string option"
  cfg_address :: pyval
  cfg_wallet_secret :: "string option"

datatype cdp_provider = CdpEvmServerWalletProvider provider_config

record cdp_client =
  c_agent_id :: string
  c_wallet_provider :: "cdp_provider option"
  c_wallet_provider_config :: "provider_config option"

text \<open>
  The skill store, \<^verbatim>\<open>json\<close>, the key libraries and the custody SDK
  (\<^verbatim>\<open>cdp_client.evm.import_account\<close>, \<^verbatim>\<open>create_account\<close>, \<^verbatim>\<open>close\<close>) as
  parameters. Agent data is read from and saved to the store of the state.
\<close>

record cdp_world =
  get_agent_config :: "string \<Rightarrow> agent"
  get_system_config :: "string \<Rightarrow> string option"
  loads :: "string \<Rightarrow> pyval option"
  keys_lib :: keylib
  import_account :: "string \<Rightarrow> string \<Rightarrow> error option"
  create_account :: "string \<Rightarrow> error + string"
  close_client :: "error option"

text \<open>The error of lines 98-100, which the specification calls \<^verbatim>\<open>WalletDataCorrupt\<close>.\<close>

definition WalletDataCorrupt :: error where
  "WalletDataCorrupt = ValueError ''Bad wallet data, seed does not match default_address_id''"

text \<open>
  Lines 90-108: migration of a version-1 wallet. The result is the address after the
  block: unchanged (falsy) when there is nothing to migrate, the derived address after
  an import.
\<close>

definition migrate_v1 ::
  "cdp_world \<Rightarrow> agent \<Rightarrow> agent_data \<Rightarrow> pyval \<Rightarrow> pstate \<Rightarrow> (error + pyval) \<times> pstate" where
  "migrate_v1 cw a agent_data addr s =
     (if str_truthy (cdp_wallet_data agent_data) then
        (case loads cw (the (cdp_wallet_data agent_data)) of
           None \<Rightarrow> (Inl JSONDecodeError, s)
         | Some wallet_data \<Rightarrow>
             (case wallet_data of
                PDict kvs \<Rightarrow>
                  (let default_address_id = (case map_of kvs ''default_address_id'' of
                                               None \<Rightarrow> PNone | Some v \<Rightarrow> v);
                       seed = (case map_of kvs ''seed'' of None \<Rightarrow> PNone | Some v \<Rightarrow> v)
                   in if py_truthy default_address_id \<and> py_truthy seed then
                        (case (case seed of
                                 PStr seed_hex \<Rightarrow> bip39_seed_to_eth_keys (keys_lib cw) seed_hex
                               | _ \<Rightarrow> Inl TypeError) of
                           Inl e \<Rightarrow> (Inl e, s)
                         | Inr keys \<Rightarrow>
                             if PStr (address keys) \<noteq> default_address_id
                             then (Inl WalletDataCorrupt, s)
                             else
                               (let s1 = log_event
                                      (EvImportAccount (agent_id a) (private_key keys)) s
                                in case import_account cw (agent_id a) (private_key keys) of
                                     Some e \<Rightarrow> (Inl e, s1)
                                   | None \<Rightarrow> (Inr (PStr (address keys)), s1)))
                      else (Inr addr, s))
              | _ \<Rightarrow> (Inl (ValueError ''Invalid wallet data format''), s)))
      else (Inr addr, s))"

text \<open>Lines 110-116: still no address, so a new account is requested.\<close>

definition create_if_missing ::
  "cdp_world \<Rightarrow> agent \<Rightarrow> pyval \<Rightarrow> pstate \<Rightarrow> (error + pyval) \<times> pstate" where
  "create_if_missing cw a addr s =
     (if \<not> py_truthy addr then
        (let s1 = log_event (EvCreateAccount (agent_id a)) s
         in case create_account cw (agent_id a) of
              Inl e \<Rightarrow> (Inl e, s1)
            | Inr new_address \<Rightarrow> (Inr (PStr new_address), s1))
      else (Inr addr, s))"

text \<open>Lines 125-133: build the provider for the address and memoise it.\<close>

definition load_provider ::
  "cdp_world \<Rightarrow> cdp_client \<Rightarrow> string option \<Rightarrow> pyval \<Rightarrow> cdp_provider \<times> cdp_client" where
  "load_provider cw c net addr =
     (let cfg = \<lparr>cfg_api_key_id = get_system_config cw ''cdp_api_key_id'',
                 cfg_api_key_secret = get_system_config cw ''cdp_api_key_secret'',
                 cfg_network_id = net,
                 cfg_address = addr,
                 cfg_wallet_secret = get_system_config cw ''cdp_wallet_secret''\<rparr>;
          p = CdpEvmServerWalletProvider cfg
      in (p, c\<lparr>c_wallet_provider_config := Some cfg, c_wallet_provider := Some p\<rparr>))"

definition get_wallet_provider ::
  "cdp_world \<Rightarrow> cdp_client \<Rightarrow> pstate \<Rightarrow> (error + cdp_provider) \<times> cdp_client \<times> pstate" where
  "get_wallet_provider cw c s =
     (case c_wallet_provider c of
        Some p \<Rightarrow> (Inr p, c, s)
      | None \<Rightarrow>
          (let a = get_agent_config cw (c_agent_id c);
               agent_data = store s (c_agent_id c);
               net = (if str_truthy (network_id a) then network_id a else cdp_network_id a);
               addr = evm_wallet_address agent_data
           in if \<not> py_truthy addr then
                (case migrate_v1 cw a agent_data addr s of
                   (Inl e, s1) \<Rightarrow> (Inl e, c, s1)
                 | (Inr addr1, s1) \<Rightarrow>
                     (case create_if_missing cw a addr1 s1 of
                        (Inl e, s2) \<Rightarrow> (Inl e, c, s2)
                      | (Inr addr2, s2) \<Rightarrow>
                          (let s3 = log_event EvCdpClose s2
                           in case close_client cw of
                                Some e \<Rightarrow> (Inl e, c, s3)
                              | None \<Rightarrow>
                                  (let s4 = s3\<lparr>store := (store s3)
                                              (c_agent_id c :=
                                                 agent_data\<lparr>evm_wallet_address := addr2\<rparr>),
                                            trace := trace s3 @ [EvStoreWrite (c_agent_id c)]\<rparr>;
                                       (p, c1) = load_provider cw c net addr2
                                   in (Inr p, c1, s4)))))
              else
                (let (p, c1) = load_provider cw c net addr
                 in (Inr p, c1, s))))"

section \<open>The Safe allowance orchestrator\<close>

text \<open>
  The module \<^verbatim>\<open>intentkit.wallets.privy\<close> / \<^verbatim>\<open>privy_safe\<close> is not among the
  sources; its tests (\<^verbatim>\<open>tests/wallets/test_safe_deployment_nonce.py\<close>) are. The
  operations below follow sections 4.3 and 4.4 of the specification, with the names the
  tests use.
\<close>

datatype safe_error = ChainConfigMissing | TransientNetworkError | IrrecoverableChainError

text \<open>Modelled from the spec: the chain registry entry of a network (section 6), the
  absent \<^verbatim>\<open>ChainConfig\<close> class.\<close>

record chain_config =
  chain_id :: nat
  rpc_url :: string
  safe_singleton_address :: string
  allowance_module_address :: string
  usdc_address :: string

text \<open>
  Modelled from the spec: the chain as the orchestrator sees it through the RPC
  provider and the custody service, which are absent. A deployed Safe has a set of
  enabled modules, a next nonce and a weekly limit per token. Following the glossary, a
  transaction is applied only when its nonce is the account's next nonce, and raises the
  nonce by one; any other nonce is surfaced as \<open>IrrecoverableChainError\<close>.
\<close>

record safe_account =
  enabled_modules :: "string set"
  safe_nonce :: nat
  token_limits :: "string \<Rightarrow> int option"

record chain =
  safes :: "string \<Rightarrow> safe_account option"
  erc20_decimals :: "string \<Rightarrow> nat option"

datatype call =
    QueryDeployed string
  | QueryNonce string
  | QueryModuleEnabled string
  | QueryDecimals string string
  | TxDeploy string
  | TxEnableModule string nat
  | TxSetLimit string string int nat
  | SetTokenLimit string "nat option"

record ostate =
  onchain :: chain
  decimals_cache :: "string \<times> string \<Rightarrow> nat option"
  calls :: "call list"

definition log_call :: "call \<Rightarrow> ostate \<Rightarrow> ostate" where
  "log_call c st = st\<lparr>calls := calls st @ [c]\<rparr>"

text \<open>Modelled from the spec: the custody service's \<^verbatim>\<open>sign_and_send\<close> of a Safe
  transaction with an explicit nonce, which is absent.\<close>

definition send_safe_tx ::
  "string \<Rightarrow> nat \<Rightarrow> (safe_account \<Rightarrow> safe_account) \<Rightarrow> chain \<Rightarrow> safe_error + chain" where
  "send_safe_tx safe n effect ch =
     (case safes ch safe of
        None \<Rightarrow> Inl IrrecoverableChainError
      | Some acc \<Rightarrow>
          if n \<noteq> safe_nonce acc then Inl IrrecoverableChainError
          else Inr (ch\<lparr>safes := (safes ch)(safe \<mapsto> (effect acc)\<lparr>safe_nonce := Suc n\<rparr>)\<rparr>))"

text \<open>
  Modelled from the spec: the conversion of section 4.4, whose code is absent. The human
  amount is the decimal numeral \<open>c \<times> 10\<^sup>e\<close>; the result is \<open>c \<times> 10\<^sup>e\<^sup>+\<^sup>d\<close> in integer
  arithmetic. The specification fixes no rounding for an amount finer than the token's
  precision; the model drops the remainder, towards zero.
\<close>

definition to_smallest_unit :: "int \<Rightarrow> int \<Rightarrow> nat \<Rightarrow> int" where
  "to_smallest_unit c e d =
     (if 0 \<le> e + int d then c * 10 ^ nat (e + int d)
      else sgn c * (\<bar>c\<bar> div 10 ^ nat (- (e + int d))))"

text \<open>
  Modelled from the spec: "resolves token decimal precision by on-chain query (cached
  per token+network)". The tests also pass the precision explicitly
  (\<^verbatim>\<open>token_decimals=6\<close>), which needs no query.
\<close>

definition resolve_decimals ::
  "string \<Rightarrow> string \<Rightarrow> nat option \<Rightarrow> ostate \<Rightarrow> (safe_error + nat) \<times> ostate" where
  "resolve_decimals network token token_decimals st =
     (case token_decimals of
        Some d \<Rightarrow> (Inr d, st)
      | None \<Rightarrow>
          (case decimals_cache st (token, network) of
             Some d \<Rightarrow> (Inr d, st)
           | None \<Rightarrow>
               (let st1 = log_call (QueryDecimals token network) st
                in case erc20_decimals (onchain st1) token of
                     None \<Rightarrow> (Inl TransientNetworkError, st1)
                   | Some d \<Rightarrow>
                       (Inr d, st1\<lparr>decimals_cache :=
                                      (decimals_cache st1)((token, network) \<mapsto> d)\<rparr>))))"

text \<open>Modelled from the spec: \<^verbatim>\<open>get_next_nonce\<close> of the chain RPC provider.\<close>

definition get_safe_nonce :: "string \<Rightarrow> ostate \<Rightarrow> (safe_error + nat) \<times> ostate" where
  "get_safe_nonce safe st =
     (let st1 = log_call (QueryNonce safe) st
      in case safes (onchain st1) safe of
           None \<Rightarrow> (Inl IrrecoverableChainError, st1)
         | Some acc \<Rightarrow> (Inr (safe_nonce acc), st1))"

text \<open>Modelled from the spec: the on-chain check "whether the allowance module is
  already enabled on the Safe" (\<^verbatim>\<open>_is_module_enabled\<close> in the tests), which is
  absent.\<close>

definition is_module_enabled :: "string \<Rightarrow> string \<Rightarrow> chain \<Rightarrow> bool" where
  "is_module_enabled safe allowance_module ch =
     (case safes ch safe of None \<Rightarrow> False | Some acc \<Rightarrow> allowance_module \<in> enabled_modules acc)"

text \<open>Modelled from the spec: submitting one custody-signed transaction, which is
  absent. The submission is logged, then the chain applies it or rejects it.\<close>

definition submit ::
  "call \<Rightarrow> string \<Rightarrow> nat \<Rightarrow> (safe_account \<Rightarrow> safe_account) \<Rightarrow> ostate
     \<Rightarrow> (safe_error + unit) \<times> ostate" where
  "submit c safe n effect st =
     (let st1 = log_call c st
      in case send_safe_tx safe n effect (onchain st1) of
           Inl e \<Rightarrow> (Inl e, st1)
         | Inr ch \<Rightarrow> (Inr (), st1\<lparr>onchain := ch\<rparr>))"

record limit_result =
  allowance_module_enabled :: bool
  spending_limit_configured :: bool
  tx_hashes :: "(string \<times> call) list"
  next_nonce :: nat

text \<open>
  Modelled from the spec: section 4.4, \<^verbatim>\<open>set_token_limit\<close>
  (\<^verbatim>\<open>set_safe_token_spending_limit\<close> in the tests), which is absent. Without a
  supplied nonce the chain is queried. If the allowance module is not enabled it is
  enabled first and consumes one nonce; the limit transaction consumes the next one and
  replaces any earlier limit of the token. \<open>next_nonce\<close> is the last consumed nonce
  plus one.
\<close>

definition set_safe_token_spending_limit ::
  "(string \<Rightarrow> chain_config option) \<Rightarrow> string \<Rightarrow> string \<Rightarrow> string \<Rightarrow> int \<times> int
     \<Rightarrow> nat option \<Rightarrow> nat option \<Rightarrow> ostate \<Rightarrow> (safe_error + limit_result) \<times> ostate" where
  "set_safe_token_spending_limit registry network safe token spending_limit
       token_decimals nonce st0 =
     (let st = log_call (SetTokenLimit token nonce) st0
      in case registry network of
           None \<Rightarrow> (Inl ChainConfigMissing, st)
         | Some cfg \<Rightarrow>
             (case resolve_decimals network token token_decimals st of
                (Inl e, st1) \<Rightarrow> (Inl e, st1)
              | (Inr d, st1) \<Rightarrow>
                  (let allowance_amount =
                         to_smallest_unit (fst spending_limit) (snd spending_limit) d
                   in case (case nonce of
                              Some n \<Rightarrow> (Inr n, st1)
                            | None \<Rightarrow> get_safe_nonce safe st1) of
                        (Inl e, st2) \<Rightarrow> (Inl e, st2)
                      | (Inr n, st2) \<Rightarrow>
                          (let allowance_module = allowance_module_address cfg;
                               st3 = log_call (QueryModuleEnabled safe) st2
                           in if \<not> is_module_enabled safe allowance_module (onchain st3) then
                                (case submit (TxEnableModule safe n) safe n
                                        (\<lambda>acc. acc\<lparr>enabled_modules :=
                                                      insert allowance_module (enabled_modules acc)\<rparr>)
                                        st3 of
                                   (Inl e, st4) \<Rightarrow> (Inl e, st4)
                                 | (Inr u, st4) \<Rightarrow>
                                     (case submit
                                             (TxSetLimit safe token allowance_amount (n + 1))
                                             safe (n + 1)
                                             (\<lambda>acc. acc\<lparr>token_limits :=
                                                (token_limits acc)(token \<mapsto> allowance_amount)\<rparr>)
                                             st4 of
                                        (Inl e, st5) \<Rightarrow> (Inl e, st5)
                                      | (Inr u, st5) \<Rightarrow>
                                          (Inr \<lparr>allowance_module_enabled = True,
                                                spending_limit_configured = True,
                                                tx_hashes =
                                                  [(''enable_module'', TxEnableModule safe n),
                                                   (''set_spending_limit'',
                                                    TxSetLimit safe token allowance_amount
                                                      (n + 1))],
                                                next_nonce = n + 1 + 1\<rparr>, st5)))
                              else
                                (case submit (TxSetLimit safe token allowance_amount n) safe n
                                        (\<lambda>acc. acc\<lparr>token_limits :=
                                           (token_limits acc)(token \<mapsto> allowance_amount)\<rparr>)
                                        st3 of
                                   (Inl e, st4) \<Rightarrow> (Inl e, st4)
                                 | (Inr u, st4) \<Rightarrow>
                                     (Inr \<lparr>allowance_module_enabled = True,
                                           spending_limit_configured = True,
                                           tx_hashes =
                                             [(''set_spending_limit'',
                                               TxSetLimit safe token allowance_amount n)],
                                           next_nonce = n + 1\<rparr>, st4))))))"

record safe_record =
  smart_wallet_address :: string
  status :: string
  limit :: limit_result

text \<open>Modelled from the spec: the on-chain state of a Safe right after its deployment,
  with no module, no limit and nonce 0.\<close>

definition fresh_safe :: safe_account where
  "fresh_safe = \<lparr>enabled_modules = {}, safe_nonce = 0, token_limits = (\<lambda>t. None)\<rparr>"

text \<open>
  Modelled from the spec: section 4.3, \<^verbatim>\<open>deploy_with_allowance\<close>
  (\<^verbatim>\<open>deploy_safe_with_allowance\<close> in the tests), which is absent. The Safe address is
  a pure function of the owner, the chain's singleton and a fixed salt (the parameter
  \<open>predict_safe_address\<close>). An undeployed Safe is deployed and starts the local nonce
  sequence at 0; for a deployed one no local nonce exists, so the chain is queried once.
  The module and limit steps are those of section 4.4, on the reference stablecoin.
  The chain of this model applies a submitted deployment at once, so the bounded
  confirmation poll of step 2 succeeds at its first attempt and is not written out; a
  newly deployed Safe (\<open>fresh_safe\<close>) has no module, no limit and nonce 0.
\<close>

definition deploy_safe_with_allowance ::
  "(string \<Rightarrow> chain_config option) \<Rightarrow> (string \<Rightarrow> string \<Rightarrow> string) \<Rightarrow> string \<Rightarrow> string
     \<Rightarrow> int \<times> int \<Rightarrow> ostate \<Rightarrow> (safe_error + safe_record) \<times> ostate" where
  "deploy_safe_with_allowance registry predict_safe_address owner_address network
       weekly_spending_limit_usdc st =
     (case registry network of
        None \<Rightarrow> (Inl ChainConfigMissing, st)
      | Some cfg \<Rightarrow>
          (let safe = predict_safe_address owner_address (safe_singleton_address cfg);
               st1 = log_call (QueryDeployed safe) st
           in case (if safes (onchain st1) safe = None then
                      (let st2 = log_call (TxDeploy safe) st1;
                           st3 = st2\<lparr>onchain := (onchain st2)
                                   \<lparr>safes := (safes (onchain st2))(safe \<mapsto> fresh_safe)\<rparr>\<rparr>
                       in (Inr 0, st3))
                    else get_safe_nonce safe st1) of
                (Inl e, st4) \<Rightarrow> (Inl e, st4)
              | (Inr n, st4) \<Rightarrow>
                  (case set_safe_token_spending_limit registry network safe
                          (usdc_address cfg) weekly_spending_limit_usdc None (Some n) st4 of
                     (Inl e, st5) \<Rightarrow> (Inl e, st5)
                   | (Inr res, st5) \<Rightarrow>
                       (Inr \<lparr>smart_wallet_address = safe,
                             status = ''limit_configured'',
                             limit = res\<rparr>, st5))))"

section \<open>Vocabulary of the statements\<close>

text \<open>A limit the quantisation of lines 32-41 accepts: absent, NaN, or finite with a
  quantised magnitude below \<open>10\<^sup>2\<^sup>8\<close> millionths.\<close>

definition quantizable :: "pyfloat option \<Rightarrow> bool" where
  "quantizable l = (case quantize_limit l of Inl e \<Rightarrow> False | Inr d \<Rightarrow> True)"

fun provider_address :: "cdp_provider \<Rightarrow> pyval" where
  "provider_address (CdpEvmServerWalletProvider cfg) = cfg_address cfg"


fun safe_wallet_calls :: "event list \<Rightarrow> safe_wallet_args list" where
  "safe_wallet_calls [] = []"
| "safe_wallet_calls (EvCreatePrivySafeWallet args # evs) = args # safe_wallet_calls evs"
| "safe_wallet_calls (ev # evs) = safe_wallet_calls evs"

section \<open>Example inputs\<close>

definition demo_agent :: "string \<Rightarrow> pyfloat option \<Rightarrow> agent" where
  "demo_agent kind wk_limit =
     \<lparr>agent_id = ''agent-1'', wallet_provider = Some kind, weekly_spending_limit = wk_limit,
      network_id = None, cdp_network_id = None, owner = Some ''did:privy:user_1'',
      readonly_wallet_address = Some ''0xReadonly''\<rparr>"

definition demo_world :: world where
  "demo_world =
     \<lparr>cdp_api_key_id = None,
      chain_provider = None,
      json_loads = (\<lambda>t. if t = ''{privy}''
                         then Some (PDict [(''privy_wallet_id'', PStr ''wallet-1''),
                                           (''privy_wallet_address'', PStr ''0xOwner'')])
                         else None),
      json_dumps = (\<lambda>v. ''{safe}''),
      create_privy_safe_wallet = (\<lambda>args. Inr [(''smart_wallet_address'', PStr ''0xSafe'')]),
      get_authorization_public_keys = [],
      create_key_quorum = (\<lambda>u k n d. Inr ''quorum-1''),
      create_wallet = (\<lambda>q. Inr \<lparr>pw_id = ''wallet-1'', pw_address = ''0xOwner''\<rparr>),
      create_native_wallet = (\<lambda>n. Inr [(''address'', PStr ''0xNative'')]),
      get_cdp_wallet_provider = (\<lambda>a st. Inr st)\<rparr>"

text \<open>The same collaborators, with a serialiser whose output parses back to the stored
  wallet id and address.\<close>

definition echo_world :: world where
  "echo_world = demo_world\<lparr>json_dumps := (\<lambda>v. ''{privy}'')\<rparr>"

text \<open>A store of records without an address, and one of provisioned Safe records.\<close>

definition empty_state :: pstate where
  "empty_state =
     \<lparr>store = (\<lambda>aid. \<lparr>data_id = aid, evm_wallet_address = PNone, privy_wallet_data = None,
                       native_wallet_data = None, cdp_wallet_data = None\<rparr>),
      trace = []\<rparr>"

definition safe_state :: pstate where
  "safe_state =
     \<lparr>store = (\<lambda>aid. \<lparr>data_id = aid, evm_wallet_address = PStr ''0xSafe'',
                       privy_wallet_data = Some ''{privy}'',
                       native_wallet_data = None, cdp_wallet_data = None\<rparr>),
      trace = []\<rparr>"

definition demo_keylib :: keylib where
  "demo_keylib =
     \<lparr>bytes_fromhex = (\<lambda>h. Some [1, 2, 3]),
      get_privkey_from_path = (\<lambda>b p. Inr [4, 5, 6]),
      private_key_to_hex = (\<lambda>k. ''0xPriv''),
      public_key_of = (\<lambda>k. [7]),
      public_key_to_hex = (\<lambda>k. ''0xPub''),
      public_key_to_address = (\<lambda>k. ''0xaddr''),
      to_checksum_address = (\<lambda>s. ''0xAddr'')\<rparr>"

definition demo_cdp_world :: "string \<Rightarrow> cdp_world" where
  "demo_cdp_world recorded =
     \<lparr>get_agent_config = (\<lambda>aid. demo_agent ''cdp'' None),
      get_system_config = (\<lambda>k. Some ''secret''),
      loads = (\<lambda>t. if t = ''{seed}''
                    then Some (PDict [(''default_address_id'', PStr recorded),
                                      (''seed'', PStr ''00ff'')])
                    else None),
      keys_lib = demo_keylib,
      import_account = (\<lambda>n k. None),
      create_account = (\<lambda>n. Inr ''0xNew''),
      close_client = None\<rparr>"

definition legacy_state :: pstate where
  "legacy_state =
     \<lparr>store = (\<lambda>aid. \<lparr>data_id = aid, evm_wallet_address = PNone, privy_wallet_data = None,
                       native_wallet_data = None, cdp_wallet_data = Some ''{seed}''\<rparr>),
      trace = []\<rparr>"

definition demo_client :: cdp_client where
  "demo_client =
     \<lparr>c_agent_id = ''agent-1'', c_wallet_provider = None, c_wallet_provider_config = None\<rparr>"


text \<open>Vocabulary for the orchestrator: the token precision a call will use, and the
  transactions and entries of a call log.\<close>

definition known_decimals :: "string \<Rightarrow> string \<Rightarrow> nat option \<Rightarrow> ostate \<Rightarrow> nat option" where
  "known_decimals network token token_decimals st =
     (case token_decimals of
        Some d \<Rightarrow> Some d
      | None \<Rightarrow>
          (case decimals_cache st (token, network) of
             Some d \<Rightarrow> Some d
           | None \<Rightarrow> erc20_decimals (onchain st) token))"

fun enable_txs :: "call list \<Rightarrow> nat list" where
  "enable_txs [] = []"
| "enable_txs (TxEnableModule safe n # cs) = n # enable_txs cs"
| "enable_txs (c # cs) = enable_txs cs"

fun limit_txs :: "call list \<Rightarrow> (string \<times> int \<times> nat) list" where
  "limit_txs [] = []"
| "limit_txs (TxSetLimit safe token amount n # cs) = (token, amount, n) # limit_txs cs"
| "limit_txs (c # cs) = limit_txs cs"

fun nonce_queries :: "call list \<Rightarrow> nat" where
  "nonce_queries [] = 0"
| "nonce_queries (QueryNonce safe # cs) = Suc (nonce_queries cs)"
| "nonce_queries (c # cs) = nonce_queries cs"

fun limit_steps :: "call list \<Rightarrow> (string \<times> nat option) list" where
  "limit_steps [] = []"
| "limit_steps (SetTokenLimit token nonce # cs) = (token, nonce) # limit_steps cs"
| "limit_steps (c # cs) = limit_steps cs"

definition demo_registry :: "string \<Rightarrow> chain_config option" where
  "demo_registry n =
     (if n = ''test-network''
      then Some \<lparr>chain_id = 123, rpc_url = ''http://rpc.url'',
                 safe_singleton_address = ''0xSingleton'',
                 allowance_module_address = ''0xModule'',
                 usdc_address = ''0xUSDC''\<rparr>
      else None)"

definition demo_predict :: "string \<Rightarrow> string \<Rightarrow> string" where
  "demo_predict owner_address singleton = ''0xSafe''"

text \<open>A chain on which \<open>''0xSafe''\<close> is the given account (or undeployed), every token
  has six decimals, nothing is cached and nothing has been called yet.\<close>

definition demo_ostate :: "safe_account option \<Rightarrow> ostate" where
  "demo_ostate acc =
     \<lparr>onchain = \<lparr>safes = (\<lambda>a. if a = ''0xSafe'' then acc else None),
                  erc20_decimals = (\<lambda>t. Some 6)\<rparr>,
      decimals_cache = (\<lambda>k. None),
      calls = []\<rparr>"

definition demo_account :: "bool \<Rightarrow> nat \<Rightarrow> safe_account" where
  "demo_account enabled n =
     \<lparr>enabled_modules = (if enabled then {''0xModule''} else {}),
      safe_nonce = n, token_limits = (\<lambda>t. None)\<rparr>"


section \<open>Evaluation and helper lemmas\<close>

lemmas run_defs = process_agent_wallet_def dispatch_provider_def update_spending_limit_def
  deploy_and_patch_def provision_safe_def provision_privy_def provision_native_def
  provision_cdp_def create_owner_wallet_def existing_privy_wallet_def lookup_rpc_url_def
  AgentData_get_def AgentData_patch_def log_event_def quantize_limit_def micro_units_def
  round_half_even_div_def str_truthy_def of_str_opt_def str_or_def py_or_def dict_index_def
  startswith_def ProviderImmutable_def quantizable_def Let_def

lemmas demo_defs = demo_agent_def demo_world_def empty_state_def safe_state_def

lemma AgentData_patch_stored:
  "AgentData_patch aid p s = (r, s') \<Longrightarrow> r = store s' aid"
  by (auto simp: AgentData_patch_def Let_def)

lemma deploy_and_patch_stored:
  "deploy_and_patch w a args s = (Inr r, s') \<Longrightarrow> r = store s' (agent_id a)"
  by (auto simp: deploy_and_patch_def Let_def log_event_def AgentData_patch_def
           split: sum.splits prod.splits)

lemma update_spending_limit_stored:
  "update_spending_limit w a s = (Inr r, s') \<Longrightarrow> r = store s' (agent_id a)"
  by (auto simp: update_spending_limit_def Let_def AgentData_get_def
           dest: deploy_and_patch_stored
           split: sum.splits prod.splits if_splits)

lemma provision_safe_stored:
  "provision_safe w a d s = (Inr r, s') \<Longrightarrow> r = store s' (agent_id a)"
  by (auto simp: provision_safe_def Let_def
           dest: deploy_and_patch_stored
           split: sum.splits prod.splits if_splits)

lemma provision_privy_stored:
  "provision_privy w a s = (Inr r, s') \<Longrightarrow> r = store s' (agent_id a)"
  by (auto simp: provision_privy_def Let_def dest: AgentData_patch_stored
           split: sum.splits prod.splits if_splits)

lemma provision_native_stored:
  "provision_native w a s = (Inr r, s') \<Longrightarrow> r = store s' (agent_id a)"
  by (auto simp: provision_native_def Let_def dest: AgentData_patch_stored
           split: sum.splits prod.splits if_splits)

lemma provision_cdp_stored:
  "provision_cdp w a s = (Inr r, s') \<Longrightarrow> r = store s' (agent_id a)"
  by (auto simp: provision_cdp_def Let_def AgentData_get_def
           split: sum.splits prod.splits if_splits)

lemma dispatch_provider_stored:
  "dispatch_provider w a s = (Inr r, s') \<Longrightarrow> r = store s' (agent_id a)"
  by (auto simp: dispatch_provider_def Let_def AgentData_get_def
           dest: provision_safe_stored provision_privy_stored provision_native_stored
                 provision_cdp_stored AgentData_patch_stored
           split: sum.splits prod.splits if_splits)

text \<open>A record that \<open>process_agent_wallet\<close> returns is the one the store now holds.\<close>

lemma process_agent_wallet_stored:
  "process_agent_wallet w a old ol s = (Inr r, s') \<Longrightarrow> r = store s' (agent_id a)"
  by (auto simp: process_agent_wallet_def AgentData_get_def
           dest: dispatch_provider_stored update_spending_limit_stored
           split: sum.splits if_splits)

text \<open>A call that returns has quantised both limits and is not a provider change.\<close>

lemma process_agent_wallet_quantized:
  "process_agent_wallet w a old ol s = (Inr r, s') \<Longrightarrow>
     (\<exists>q1 q2. quantize_limit ol = Inr q1 \<and> quantize_limit (weekly_spending_limit a) = Inr q2)
     \<and> (old \<in> {None, Some ''none''} \<or> old = wallet_provider a)"
  by (auto simp: process_agent_wallet_def split: sum.splits if_splits)

lemma decimal_ne_same:
  "quantize_limit l = Inr q \<Longrightarrow> l \<noteq> Some FNaN \<Longrightarrow> \<not> decimal_ne q q"
  apply (cases l)
   apply (simp add: quantize_limit_def)
  subgoal for x
    by (cases x) (auto simp: quantize_limit_def Let_def split: if_splits)
  done

lemma with_address_unchanged:
  assumes "py_truthy (evm_wallet_address (store s (agent_id a)))"
      and "quantize_limit ol = Inr q1" and "quantize_limit (weekly_spending_limit a) = Inr q2"
      and "old \<in> {None, Some ''none''} \<or> (old = wallet_provider a \<and> \<not> decimal_ne q1 q2)"
  shows "process_agent_wallet w a old ol s = (Inr (store s (agent_id a)), s)"
  using assms
  by (auto simp: process_agent_wallet_def dispatch_provider_def AgentData_get_def Let_def)

lemma get_wallet_provider_with_address:
  assumes "py_truthy (evm_wallet_address (store s (c_agent_id c)))"
  shows "\<exists>p c'. get_wallet_provider cw c s = (Inr p, c', s) \<and>
           (c_wallet_provider c = None \<longrightarrow>
              provider_address p = evm_wallet_address (store s (c_agent_id c)))"
  using assms
  by (auto simp: get_wallet_provider_def load_provider_def Let_def split: option.splits)

lemma dispatch_cdp_no_key:
  "wallet_provider a = Some ''cdp'' \<Longrightarrow> \<not> str_truthy (cdp_api_key_id w) \<Longrightarrow>
   \<not> py_truthy (evm_wallet_address (store s (agent_id a))) \<Longrightarrow>
   dispatch_provider w a s = (Inr (store s (agent_id a)), s)"
  by (simp add: dispatch_provider_def AgentData_get_def Let_def)

text \<open>The first provisioning of a read-only agent on an empty store, used as the
  earlier call of the idempotency witness.\<close>

lemma readonly_first_call:
  "process_agent_wallet demo_world (demo_agent ''readonly'' None) None None empty_state =
     (Inr \<lparr>data_id = ''agent-1'', evm_wallet_address = PStr ''0xReadonly'',
           privy_wallet_data = None, native_wallet_data = None, cdp_wallet_data = None\<rparr>,
      \<lparr>store = (store empty_state)
         (''agent-1'' := \<lparr>data_id = ''agent-1'', evm_wallet_address = PStr ''0xReadonly'',
                          privy_wallet_data = None, native_wallet_data = None,
                          cdp_wallet_data = None\<rparr>),
       trace = [EvStoreWrite ''agent-1'']\<rparr>)"
  by (simp add: run_defs demo_defs)

lemmas cdp_defs = get_wallet_provider_def migrate_v1_def create_if_missing_def
  load_provider_def bip39_seed_to_eth_keys_def WalletDataCorrupt_def log_event_def
  str_truthy_def Let_def

lemma migrate_v1_mismatch:
  assumes "cdp_wallet_data d = Some txt" "txt \<noteq> []"
      and "loads cw txt = Some (PDict kvs)"
      and "map_of kvs ''default_address_id'' = Some recorded" "py_truthy recorded"
      and "map_of kvs ''seed'' = Some (PStr seed_hex)" "seed_hex \<noteq> []"
      and "bip39_seed_to_eth_keys (keys_lib cw) seed_hex = Inr keys"
      and "PStr (address keys) \<noteq> recorded"
  shows "migrate_v1 cw a d addr s = (Inl WalletDataCorrupt, s)"
  using assms by (simp add: migrate_v1_def str_truthy_def)

lemma migrate_v1_match:
  assumes "cdp_wallet_data d = Some txt" "txt \<noteq> []"
      and "loads cw txt = Some (PDict kvs)"
      and "map_of kvs ''default_address_id'' = Some recorded" "py_truthy recorded"
      and "map_of kvs ''seed'' = Some (PStr seed_hex)" "seed_hex \<noteq> []"
      and "bip39_seed_to_eth_keys (keys_lib cw) seed_hex = Inr keys"
      and "PStr (address keys) = recorded"
  shows "migrate_v1 cw a d addr s =
           (case import_account cw (agent_id a) (private_key keys) of
              Some e \<Rightarrow> Inl e | None \<Rightarrow> Inr (PStr (address keys)),
            s\<lparr>trace := trace s @ [EvImportAccount (agent_id a) (private_key keys)]\<rparr>)"
  using assms by (auto simp: migrate_v1_def str_truthy_def log_event_def Let_def split: option.splits)

lemma bip39_derived:
  assumes "bytes_fromhex lib seed_hex = Some seed_bytes"
      and "get_privkey_from_path lib seed_bytes
             (''m/44'' @ [CHR 0x27] @ ''/60'' @ [CHR 0x27] @ ''/0'' @ [CHR 0x27] @ ''/0/0'')
           = Inr pk"
  shows "bip39_seed_to_eth_keys lib seed_hex =
           Inr \<lparr>private_key = private_key_to_hex lib pk,
                 public_key = public_key_to_hex lib (public_key_of lib pk),
                 address = to_checksum_address lib
                             (public_key_to_address lib (public_key_of lib pk))\<rparr>"
  using assms by (simp add: bip39_seed_to_eth_keys_def eth_derivation_path_def Let_def)

lemma migrate_v1_skipped:
  assumes "cdp_wallet_data d = Some txt" "txt \<noteq> []"
      and "loads cw txt = Some (PDict kvs)"
      and "\<not> (py_truthy (case map_of kvs ''default_address_id'' of None \<Rightarrow> PNone | Some v \<Rightarrow> v)
              \<and> py_truthy (case map_of kvs ''seed'' of None \<Rightarrow> PNone | Some v \<Rightarrow> v))"
  shows "migrate_v1 cw a d addr s = (Inr addr, s)"
  using assms by (auto simp: migrate_v1_def str_truthy_def Let_def)

lemma nan_limit_call:
  assumes "store s ''agent-1'' =
             \<lparr>data_id = ''agent-1'', evm_wallet_address = PStr ''0xSafe'',
              privy_wallet_data = Some ''{privy}'', native_wallet_data = None,
              cdp_wallet_data = None\<rparr>"
  shows "process_agent_wallet echo_world (demo_agent ''safe'' (Some FNaN)) (Some ''safe'')
           (Some FNaN) s =
         (Inr \<lparr>data_id = ''agent-1'', evm_wallet_address = PStr ''0xSafe'',
                privy_wallet_data = Some ''{privy}'', native_wallet_data = None,
                cdp_wallet_data = None\<rparr>,
          s\<lparr>store := (store s)(''agent-1'' :=
                 \<lparr>data_id = ''agent-1'', evm_wallet_address = PStr ''0xSafe'',
                  privy_wallet_data = Some ''{privy}'', native_wallet_data = None,
                  cdp_wallet_data = None\<rparr>),
            trace := trace s @
              [EvCreatePrivySafeWallet
                 \<lparr>arg_agent_id = ''agent-1'', arg_network_id = PStr ''base-mainnet'',
                  arg_rpc_url = None, arg_weekly_spending_limit_usdc = Some FNaN,
                  arg_existing_privy_wallet_id = PStr ''wallet-1'',
                  arg_existing_privy_wallet_address = PStr ''0xOwner''\<rparr>,
               EvStoreWrite ''agent-1'']\<rparr>)"
  using assms by (simp add: run_defs demo_agent_def demo_world_def echo_world_def)





section \<open>Claims about the wallet provisioner and the custodial adapter\<close>

text \<open>
  C1 (amended). Provisioning is idempotent for every weekly limit that is not NaN. Let
  an earlier call of \<open>process_agent_wallet\<close> for agent \<open>a\<close> have returned record \<open>r\<close>
  with an address, leaving state \<open>s\<close>. Calling again with the configuration unchanged
  (the previous provider kind and limit are the agent's current ones) returns the same
  record \<open>r\<close> and leaves the state as it is: no store write and no external call. The
  same holds for a repetition of the earlier call with its own arguments when that call
  had no previous provider kind or had the current limit as the previous one. The
  custodial adapter's \<open>get_wallet_provider\<close> for this agent returns a provider, again
  without touching the state (so neither \<open>create_account\<close> nor \<open>import_account\<close> is
  called), and a client without a memoised provider builds it for the stored address.
\<close>

theorem provisioning_idempotent:
  assumes first: "process_agent_wallet w a old0 ol0 s0 = (Inr r, s)"
      and addr: "py_truthy (evm_wallet_address r)"
      and nan: "weekly_spending_limit a \<noteq> Some FNaN"
      and cid: "c_agent_id c = agent_id a"
  shows "process_agent_wallet w a (wallet_provider a) (weekly_spending_limit a) s = (Inr r, s)
       \<and> (old0 \<in> {None, Some ''none''} \<or> ol0 = weekly_spending_limit a \<longrightarrow>
            process_agent_wallet w a old0 ol0 s = (Inr r, s))
       \<and> (\<exists>p c'. get_wallet_provider cw c s = (Inr p, c', s) \<and>
            (c_wallet_provider c = None \<longrightarrow> provider_address p = evm_wallet_address r))"
proof -
  have r: "r = store s (agent_id a)"
    using first by (rule process_agent_wallet_stored)
  from process_agent_wallet_quantized[OF first] obtain q1 q2 where
    q1: "quantize_limit ol0 = Inr q1" and q2: "quantize_limit (weekly_spending_limit a) = Inr q2"
    and old0: "old0 \<in> {None, Some ''none''} \<or> old0 = wallet_provider a"
    by blast
  have same: "\<not> decimal_ne q2 q2"
    using q2 nan by (rule decimal_ne_same)
  have stored: "py_truthy (evm_wallet_address (store s (agent_id a)))"
    using addr r by simp
  have B: "process_agent_wallet w a (wallet_provider a) (weekly_spending_limit a) s = (Inr r, s)"
    unfolding r
    by (rule with_address_unchanged[OF stored q2 q2]) (use same in auto)
  have A: "process_agent_wallet w a old0 ol0 s = (Inr r, s)"
    if "old0 \<in> {None, Some ''none''} \<or> ol0 = weekly_spending_limit a"
  proof -
    have "old0 \<in> {None, Some ''none''} \<or> (old0 = wallet_provider a \<and> \<not> decimal_ne q1 q2)"
      using that old0 q1 q2 same by auto
    from with_address_unchanged[OF stored q1 q2 this] show ?thesis
      unfolding r .
  qed
  have C: "\<exists>p c'. get_wallet_provider cw c s = (Inr p, c', s) \<and>
            (c_wallet_provider c = None \<longrightarrow> provider_address p = evm_wallet_address r)"
    using get_wallet_provider_with_address[of s c cw] stored cid r by simp
  from A B C show ?thesis by blast
qed

theorem provisioning_idempotent_witness:
  "process_agent_wallet demo_world (demo_agent ''readonly'' None) (Some ''readonly'') None
     (snd (process_agent_wallet demo_world (demo_agent ''readonly'' None) None None empty_state))
   = process_agent_wallet demo_world (demo_agent ''readonly'' None) None None empty_state
   \<and> (\<exists>p c'. get_wallet_provider (demo_cdp_world ''0xAddr'') demo_client
         (snd (process_agent_wallet demo_world (demo_agent ''readonly'' None) None None
                 empty_state))
       = (Inr p, c',
          snd (process_agent_wallet demo_world (demo_agent ''readonly'' None) None None
                 empty_state))
       \<and> provider_address p = PStr ''0xReadonly'')"
  unfolding readonly_first_call snd_conv
  using provisioning_idempotent[OF readonly_first_call, of demo_client "demo_cdp_world ''0xAddr''"]
  by (simp add: demo_agent_def demo_client_def)

text \<open>
  The claim as stated fails for a NaN limit, which never compares equal to itself
  (\<^verbatim>\<open>old_limit != new_limit\<close> at line 59 is true): a \<^verbatim>\<open>safe\<close> agent whose record
  has an address is called with its own provider kind and its own limit as the previous
  ones; the call returns the record but enters \<^verbatim>\<open>create_privy_safe_wallet\<close> and
  writes the store, and the identical second call does so again.
\<close>

theorem nan_limit_counterexample:
  "py_truthy (evm_wallet_address (store safe_state ''agent-1''))
   \<and> fst (process_agent_wallet echo_world (demo_agent ''safe'' (Some FNaN)) (Some ''safe'')
             (Some FNaN) safe_state) = Inr (store safe_state ''agent-1'')
   \<and> trace (snd (process_agent_wallet echo_world (demo_agent ''safe'' (Some FNaN))
                    (Some ''safe'') (Some FNaN)
                    (snd (process_agent_wallet echo_world (demo_agent ''safe'' (Some FNaN))
                            (Some ''safe'') (Some FNaN) safe_state)))) =
       [EvCreatePrivySafeWallet
          \<lparr>arg_agent_id = ''agent-1'', arg_network_id = PStr ''base-mainnet'',
           arg_rpc_url = None, arg_weekly_spending_limit_usdc = Some FNaN,
           arg_existing_privy_wallet_id = PStr ''wallet-1'',
           arg_existing_privy_wallet_address = PStr ''0xOwner''\<rparr>,
        EvStoreWrite ''agent-1'',
        EvCreatePrivySafeWallet
          \<lparr>arg_agent_id = ''agent-1'', arg_network_id = PStr ''base-mainnet'',
           arg_rpc_url = None, arg_weekly_spending_limit_usdc = Some FNaN,
           arg_existing_privy_wallet_id = PStr ''wallet-1'',
           arg_existing_privy_wallet_address = PStr ''0xOwner''\<rparr>,
        EvStoreWrite ''agent-1'']"
proof -
  have s0: "store safe_state ''agent-1'' =
             \<lparr>data_id = ''agent-1'', evm_wallet_address = PStr ''0xSafe'',
              privy_wallet_data = Some ''{privy}'', native_wallet_data = None,
              cdp_wallet_data = None\<rparr>"
    by (simp add: safe_state_def)
  note first = nan_limit_call[OF s0]
  have s1: "store (snd (process_agent_wallet echo_world (demo_agent ''safe'' (Some FNaN))
                          (Some ''safe'') (Some FNaN) safe_state)) ''agent-1'' =
             \<lparr>data_id = ''agent-1'', evm_wallet_address = PStr ''0xSafe'',
              privy_wallet_data = Some ''{privy}'', native_wallet_data = None,
              cdp_wallet_data = None\<rparr>"
    unfolding first by simp
  show ?thesis
    unfolding nan_limit_call[OF s1]
    unfolding first
    by (simp add: safe_state_def)
qed

text \<open>
  C2 (amended). A call whose previous provider kind is set, is not \<open>''none''\<close> and
  differs from the agent's current kind always fails, and fails before any external call
  or store write: the state, and with it the stored wallet record, is unchanged. The
  error is \<open>ProviderImmutable\<close> whenever both spending limits can be quantised; the
  limits are quantised before the provider kinds are compared.
\<close>

theorem provider_change_rejected:
  assumes "old \<noteq> None" and "old \<noteq> Some ''none''" and "old \<noteq> wallet_provider a"
  shows "(\<exists>e. process_agent_wallet w a old ol s = (Inl e, s)) \<and>
         (quantizable ol \<and> quantizable (weekly_spending_limit a) \<longrightarrow>
            process_agent_wallet w a old ol s = (Inl ProviderImmutable, s))"
  using assms
  by (auto simp: process_agent_wallet_def quantizable_def split: sum.splits)

theorem provider_change_rejected_witness:
  "process_agent_wallet demo_world (demo_agent ''safe'' (Some (FFin 1000 (- 1))))
     (Some ''cdp'') None empty_state = (Inl ProviderImmutable, empty_state)"
  using provider_change_rejected[of "Some ''cdp''" "demo_agent ''safe'' (Some (FFin 1000 (- 1)))"
          demo_world None empty_state]
  by (simp add: demo_agent_def quantizable_def quantize_limit_def micro_units_def)

text \<open>
  The claim as stated fails for a limit the quantisation rejects: with a weekly limit of
  \<^verbatim>\<open>1e+23\<close> a change from \<^verbatim>\<open>cdp\<close> to \<^verbatim>\<open>safe\<close> raises
  \<^verbatim>\<open>decimal.InvalidOperation\<close> at lines 37-41, not the error of lines 48-52.
\<close>

theorem provider_change_counterexample:
  "Some ''cdp'' \<noteq> wallet_provider (demo_agent ''safe'' (Some (FFin 1 23)))
   \<and> process_agent_wallet demo_world (demo_agent ''safe'' (Some (FFin 1 23)))
       (Some ''cdp'') None empty_state = (Inl InvalidOperation, empty_state)
   \<and> InvalidOperation \<noteq> ProviderImmutable"
  by (simp add: run_defs demo_defs)

text \<open>
  C10 (amended). For an agent of kind \<open>''cdp''\<close> whose record has no address, under a
  configuration without \<open>cdp_api_key_id\<close>, \<open>process_agent_wallet\<close> never acts: whatever
  it returns, the state is unchanged (no external call, no store write). When the call
  is not a provider change (the previous kind is absent, \<open>''none''\<close> or \<open>''cdp''\<close>) and
  both limits can be quantised, it returns the stored record, still without an address,
  and raises nothing.
\<close>

theorem cdp_without_api_key:
  assumes "wallet_provider a = Some ''cdp''"
      and "\<not> py_truthy (evm_wallet_address (store s (agent_id a)))"
      and "\<not> str_truthy (cdp_api_key_id w)"
  shows "(\<exists>res. process_agent_wallet w a old ol s = (res, s)) \<and>
         (old \<in> {None, Some ''none'', Some ''cdp''} \<and> quantizable ol
            \<and> quantizable (weekly_spending_limit a) \<longrightarrow>
          process_agent_wallet w a old ol s = (Inr (store s (agent_id a)), s)
          \<and> \<not> py_truthy (evm_wallet_address (store s (agent_id a))))"
  using assms dispatch_cdp_no_key[OF assms(1) assms(3) assms(2)]
  by (auto simp: process_agent_wallet_def quantizable_def AgentData_get_def split: sum.splits)

theorem cdp_without_api_key_witness:
  "process_agent_wallet demo_world (demo_agent ''cdp'' None) None None empty_state =
     (Inr (store empty_state ''agent-1''), empty_state)
   \<and> \<not> py_truthy (evm_wallet_address (store empty_state ''agent-1''))"
  using cdp_without_api_key[of "demo_agent ''cdp'' None" empty_state demo_world None None]
  by (simp add: demo_agent_def demo_world_def empty_state_def quantizable_def
        quantize_limit_def str_truthy_def)

text \<open>
  The claim as stated fails when the call is a provider change: with the previous kind
  \<^verbatim>\<open>readonly\<close> the same agent, record and configuration raise the error of lines
  48-52.
\<close>

theorem cdp_without_api_key_counterexample:
  "wallet_provider (demo_agent ''cdp'' None) = Some ''cdp''
   \<and> \<not> py_truthy (evm_wallet_address (store empty_state (agent_id (demo_agent ''cdp'' None))))
   \<and> \<not> str_truthy (cdp_api_key_id demo_world)
   \<and> process_agent_wallet demo_world (demo_agent ''cdp'' None) (Some ''readonly'') None
       empty_state = (Inl ProviderImmutable, empty_state)"
  by (simp add: run_defs demo_defs)

text \<open>
  C5 (amended). Custodial \<open>get_wallet_provider\<close> on a client without a memoised
  provider, for a record without an address whose legacy blob parses to a dict.

  If the blob holds a non-empty recorded address (\<open>default_address_id\<close>) and a non-empty
  seed, the seed is read as hexadecimal bytes, the private key is derived from them along
  the standard Ethereum path \<^verbatim>\<open>m/44'/60'/0'/0/0\<close>, and the derived address is the
  checksum form of that key's public-key address. If the derived address differs from the
  recorded one the call fails with \<open>WalletDataCorrupt\<close> and the state is unchanged, so
  \<open>import_account\<close> is never invoked. If they are equal, the first thing the call does is
  import that private key under the agent's id; when the import and the closing of the
  SDK client succeed, the provider is built for the derived address, the address is
  stored in the record, and no account is created.

  If the recorded address or the seed is missing or empty (line 94), nothing is derived
  or compared: the first thing the call does is request a new account, whose address is
  adopted and stored when the request and the closing succeed.
\<close>

theorem legacy_seed_migration:
  assumes memo: "c_wallet_provider c = None"
      and noaddr: "\<not> py_truthy (evm_wallet_address (store s (c_agent_id c)))"
      and blob: "cdp_wallet_data (store s (c_agent_id c)) = Some txt" "txt \<noteq> []"
      and parsed: "loads cw txt = Some (PDict kvs)"
  shows "(map_of kvs ''default_address_id'' = Some recorded \<and> py_truthy recorded
          \<and> map_of kvs ''seed'' = Some (PStr seed_hex) \<and> seed_hex \<noteq> []
          \<and> bytes_fromhex (keys_lib cw) seed_hex = Some seed_bytes
          \<and> get_privkey_from_path (keys_lib cw) seed_bytes
               (''m/44'' @ [CHR 0x27] @ ''/60'' @ [CHR 0x27] @ ''/0'' @ [CHR 0x27] @ ''/0/0'')
              = Inr pk
          \<and> derived = to_checksum_address (keys_lib cw)
                (public_key_to_address (keys_lib cw) (public_key_of (keys_lib cw) pk)) \<longrightarrow>
          (PStr derived \<noteq> recorded \<longrightarrow>
             get_wallet_provider cw c s = (Inl WalletDataCorrupt, c, s))
          \<and> (PStr derived = recorded \<longrightarrow>
             (\<exists>res c' s'. get_wallet_provider cw c s = (res, c', s')
                \<and> take (Suc (length (trace s))) (trace s') =
                    trace s @ [EvImportAccount (agent_id (get_agent_config cw (c_agent_id c)))
                                 (private_key_to_hex (keys_lib cw) pk)]
                \<and> (import_account cw (agent_id (get_agent_config cw (c_agent_id c)))
                      (private_key_to_hex (keys_lib cw) pk) = None
                    \<and> close_client cw = None \<longrightarrow>
                     (\<exists>p. res = Inr p \<and> provider_address p = PStr derived)
                     \<and> evm_wallet_address (store s' (c_agent_id c)) = PStr derived
                     \<and> trace s' = trace s @
                          [EvImportAccount (agent_id (get_agent_config cw (c_agent_id c)))
                             (private_key_to_hex (keys_lib cw) pk),
                           EvCdpClose, EvStoreWrite (c_agent_id c)]))))
       \<and> (\<not> (py_truthy (case map_of kvs ''default_address_id'' of
                             None \<Rightarrow> PNone | Some v \<Rightarrow> v)
               \<and> py_truthy (case map_of kvs ''seed'' of None \<Rightarrow> PNone | Some v \<Rightarrow> v)) \<longrightarrow>
           (\<exists>res c' s'. get_wallet_provider cw c s = (res, c', s')
              \<and> take (Suc (length (trace s))) (trace s') =
                  trace s @ [EvCreateAccount (agent_id (get_agent_config cw (c_agent_id c)))]
              \<and> (create_account cw (agent_id (get_agent_config cw (c_agent_id c))) = Inr new
                  \<and> close_client cw = None \<longrightarrow>
                   (\<exists>p. res = Inr p \<and> provider_address p = PStr new)
                   \<and> evm_wallet_address (store s' (c_agent_id c)) = PStr new
                   \<and> trace s' = trace s @
                        [EvCreateAccount (agent_id (get_agent_config cw (c_agent_id c))),
                         EvCdpClose, EvStoreWrite (c_agent_id c)])))"
proof (intro conjI impI; (elim conjE)?)
  let ?a = "get_agent_config cw (c_agent_id c)"
  let ?lib = "keys_lib cw"
  assume recorded: "map_of kvs ''default_address_id'' = Some recorded" "py_truthy recorded"
     and seed: "map_of kvs ''seed'' = Some (PStr seed_hex)" "seed_hex \<noteq> []"
     and hex: "bytes_fromhex ?lib seed_hex = Some seed_bytes"
     and pk: "get_privkey_from_path ?lib seed_bytes
               (''m/44'' @ [CHR 0x27] @ ''/60'' @ [CHR 0x27] @ ''/0'' @ [CHR 0x27] @ ''/0/0'')
              = Inr pk"
     and derived: "derived = to_checksum_address ?lib
                (public_key_to_address ?lib (public_key_of ?lib pk))"
  let ?keys = "\<lparr>private_key = private_key_to_hex ?lib pk,
                 public_key = public_key_to_hex ?lib (public_key_of ?lib pk),
                 address = derived\<rparr>"
  have keys: "bip39_seed_to_eth_keys ?lib seed_hex = Inr ?keys"
    unfolding derived by (rule bip39_derived[OF hex pk])
  {
    assume ne: "PStr derived \<noteq> recorded"
    then have ne': "PStr (address ?keys) \<noteq> recorded"
      by simp
    show "get_wallet_provider cw c s = (Inl WalletDataCorrupt, c, s)"
      using memo noaddr
        migrate_v1_mismatch[OF blob parsed recorded seed keys ne',
          of ?a "evm_wallet_address (store s (c_agent_id c))" s]
      by (simp add: get_wallet_provider_def Let_def)
  }
  {
    assume eq: "PStr derived = recorded"
    then have eq': "PStr (address ?keys) = recorded"
      by simp
    have nonempty: "derived \<noteq> []"
      using eq recorded(2) by auto
    note m = migrate_v1_match[OF blob parsed recorded seed keys eq',
          of ?a "evm_wallet_address (store s (c_agent_id c))" s]
    show "\<exists>res c' s'. get_wallet_provider cw c s = (res, c', s')
                \<and> take (Suc (length (trace s))) (trace s') =
                    trace s @ [EvImportAccount (agent_id ?a) (private_key_to_hex ?lib pk)]
                \<and> (import_account cw (agent_id ?a) (private_key_to_hex ?lib pk) = None
                    \<and> close_client cw = None \<longrightarrow>
                     (\<exists>p. res = Inr p \<and> provider_address p = PStr derived)
                     \<and> evm_wallet_address (store s' (c_agent_id c)) = PStr derived
                     \<and> trace s' = trace s @
                          [EvImportAccount (agent_id ?a) (private_key_to_hex ?lib pk),
                           EvCdpClose, EvStoreWrite (c_agent_id c)])"
      using memo noaddr nonempty
      by (cases "import_account cw (agent_id ?a) (private_key_to_hex ?lib pk)";
          cases "close_client cw")
         (simp_all add: get_wallet_provider_def m create_if_missing_def load_provider_def
            log_event_def Let_def)
  }
next
  let ?a = "get_agent_config cw (c_agent_id c)"
  assume skip: "\<not> (py_truthy (case map_of kvs ''default_address_id'' of
                             None \<Rightarrow> PNone | Some v \<Rightarrow> v)
               \<and> py_truthy (case map_of kvs ''seed'' of None \<Rightarrow> PNone | Some v \<Rightarrow> v))"
  note m = migrate_v1_skipped[OF blob parsed skip,
          of ?a "evm_wallet_address (store s (c_agent_id c))" s]
  show "\<exists>res c' s'. get_wallet_provider cw c s = (res, c', s')
              \<and> take (Suc (length (trace s))) (trace s') =
                  trace s @ [EvCreateAccount (agent_id ?a)]
              \<and> (create_account cw (agent_id ?a) = Inr new \<and> close_client cw = None \<longrightarrow>
                   (\<exists>p. res = Inr p \<and> provider_address p = PStr new)
                   \<and> evm_wallet_address (store s' (c_agent_id c)) = PStr new
                   \<and> trace s' = trace s @
                        [EvCreateAccount (agent_id ?a), EvCdpClose, EvStoreWrite (c_agent_id c)])"
    using memo noaddr
    by (cases "create_account cw (agent_id ?a)"; cases "close_client cw")
       (simp_all add: get_wallet_provider_def m create_if_missing_def load_provider_def
          log_event_def Let_def)
qed

theorem legacy_seed_migration_witness:
  "get_wallet_provider (demo_cdp_world ''0xOther'') demo_client legacy_state =
     (Inl WalletDataCorrupt, demo_client, legacy_state)
   \<and> (\<exists>res c' s'. get_wallet_provider (demo_cdp_world ''0xAddr'') demo_client legacy_state =
          (res, c', s')
        \<and> (\<exists>p. res = Inr p \<and> provider_address p = PStr ''0xAddr'')
        \<and> evm_wallet_address (store s' ''agent-1'') = PStr ''0xAddr''
        \<and> trace s' = [EvImportAccount ''agent-1'' ''0xPriv'', EvCdpClose,
                       EvStoreWrite ''agent-1''])
   \<and> (\<exists>res c' s'. get_wallet_provider (demo_cdp_world []) demo_client legacy_state =
          (res, c', s')
        \<and> (\<exists>p. res = Inr p \<and> provider_address p = PStr ''0xNew'')
        \<and> evm_wallet_address (store s' ''agent-1'') = PStr ''0xNew''
        \<and> trace s' = [EvCreateAccount ''agent-1'', EvCdpClose, EvStoreWrite ''agent-1''])"
proof -
  have memo: "c_wallet_provider demo_client = None"
    by (simp add: demo_client_def)
  have noaddr: "\<not> py_truthy (evm_wallet_address (store legacy_state (c_agent_id demo_client)))"
    by (simp add: legacy_state_def)
  have blob: "cdp_wallet_data (store legacy_state (c_agent_id demo_client)) = Some ''{seed}''"
             "''{seed}'' \<noteq> []"
    by (simp_all add: legacy_state_def)
  have parsed: "loads (demo_cdp_world r) ''{seed}'' =
                  Some (PDict [(''default_address_id'', PStr r), (''seed'', PStr ''00ff'')])" for r
    by (simp add: demo_cdp_world_def)
  note th = legacy_seed_migration[OF memo noaddr blob parsed, where seed_hex = "''00ff''"
              and seed_bytes = "[1, 2, 3]" and pk = "[4, 5, 6]" and derived = "''0xAddr''"
              and new = "''0xNew''"]
  have bad: "get_wallet_provider (demo_cdp_world ''0xOther'') demo_client legacy_state =
               (Inl WalletDataCorrupt, demo_client, legacy_state)"
    using th[of "''0xOther''" "PStr ''0xOther''"]
    by (simp add: demo_cdp_world_def demo_keylib_def)
  have good: "\<exists>res c' s'. get_wallet_provider (demo_cdp_world ''0xAddr'') demo_client legacy_state =
          (res, c', s')
        \<and> (\<exists>p. res = Inr p \<and> provider_address p = PStr ''0xAddr'')
        \<and> evm_wallet_address (store s' ''agent-1'') = PStr ''0xAddr''
        \<and> trace s' = [EvImportAccount ''agent-1'' ''0xPriv'', EvCdpClose,
                       EvStoreWrite ''agent-1'']"
    using th[of "''0xAddr''" "PStr ''0xAddr''"]
    by (simp add: demo_cdp_world_def demo_keylib_def demo_client_def demo_agent_def
          legacy_state_def) blast
  have fresh: "\<exists>res c' s'. get_wallet_provider (demo_cdp_world []) demo_client legacy_state =
          (res, c', s')
        \<and> (\<exists>p. res = Inr p \<and> provider_address p = PStr ''0xNew'')
        \<and> evm_wallet_address (store s' ''agent-1'') = PStr ''0xNew''
        \<and> trace s' = [EvCreateAccount ''agent-1'', EvCdpClose, EvStoreWrite ''agent-1'']"
    using th[of "[]" "PStr []"]
    by (simp add: demo_cdp_world_def demo_keylib_def demo_client_def demo_agent_def
          legacy_state_def) blast
  from bad good fresh show ?thesis by blast
qed

text \<open>
  The claim as stated fails for a blob with a seed and an empty recorded address: the
  address derived from the seed differs from the recorded one, yet the guard of line 94
  skips the comparison, no \<open>WalletDataCorrupt\<close> is raised, and lines 110-115 create a
  new account whose address is stored.
\<close>

theorem unrecorded_address_counterexample:
  "loads (demo_cdp_world []) ''{seed}'' =
     Some (PDict [(''default_address_id'', PStr []), (''seed'', PStr ''00ff'')])
   \<and> bip39_seed_to_eth_keys (keys_lib (demo_cdp_world [])) ''00ff'' =
       Inr \<lparr>private_key = ''0xPriv'', public_key = ''0xPub'', address = ''0xAddr''\<rparr>
   \<and> PStr ''0xAddr'' \<noteq> PStr []
   \<and> fst (get_wallet_provider (demo_cdp_world []) demo_client legacy_state)
       \<noteq> Inl WalletDataCorrupt
   \<and> trace (snd (snd (get_wallet_provider (demo_cdp_world []) demo_client legacy_state))) =
       [EvCreateAccount ''agent-1'', EvCdpClose, EvStoreWrite ''agent-1'']
   \<and> evm_wallet_address
        (store (snd (snd (get_wallet_provider (demo_cdp_world []) demo_client legacy_state)))
           ''agent-1'') = PStr ''0xNew''"
  by (simp add: cdp_defs demo_cdp_world_def demo_keylib_def demo_client_def demo_agent_def
        legacy_state_def eth_derivation_path_def)




text \<open>
  C9 (amended). With the provider kind unchanged, the old and the new weekly limit are
  compared only after both are quantised to six decimal places, round-half-even. When
  the two quantise to the same value (both absent, or the same number of millionths)
  they are treated as equal: the limit-update path is not entered and the stored record
  is returned, the state unchanged.
\<close>

theorem limits_compared_after_quantizing:
  assumes "old \<noteq> None" and "old \<noteq> Some ''none''" and "old = wallet_provider a"
      and "quantize_limit ol = Inr q" and "quantize_limit (weekly_spending_limit a) = Inr q"
      and "q \<noteq> Some DNaN"
  shows "process_agent_wallet w a old ol s = (Inr (store s (agent_id a)), s)"
proof -
  have "\<not> decimal_ne q q"
    using assms(6) by (cases q; simp) (metis decimal6.exhaust decimal_ne.simps(2))
  then show ?thesis
    using assms by (simp add: process_agent_wallet_def AgentData_get_def)
qed

theorem limits_compared_after_quantizing_witness:
  "process_agent_wallet demo_world (demo_agent ''safe'' (Some (FFin 1000000004 (- 7))))
     (Some ''safe'') (Some (FFin 1000 (- 1))) safe_state =
     (Inr (store safe_state ''agent-1''), safe_state)"
proof -
  have q1: "quantize_limit (Some (FFin 1000 (- 1))) = Inr (Some (DMicro 100000000))"
    by (simp add: quantize_limit_def micro_units_def)
  have q2: "quantize_limit (weekly_spending_limit
              (demo_agent ''safe'' (Some (FFin 1000000004 (- 7))))) =
              Inr (Some (DMicro 100000000))"
    by (simp add: quantize_limit_def micro_units_def round_half_even_div_def demo_agent_def)
  have p: "Some ''safe'' = wallet_provider (demo_agent ''safe'' (Some (FFin 1000000004 (- 7))))"
    by (simp add: demo_agent_def)
  have "process_agent_wallet demo_world (demo_agent ''safe'' (Some (FFin 1000000004 (- 7))))
          (Some ''safe'') (Some (FFin 1000 (- 1))) safe_state =
          (Inr (store safe_state (agent_id (demo_agent ''safe'' (Some (FFin 1000000004 (- 7)))))),
           safe_state)"
    by (rule limits_compared_after_quantizing[OF _ _ p q1 q2]) simp_all
  then show ?thesis
    by (simp add: demo_agent_def)
qed

lemma close_limits_run:
  "process_agent_wallet demo_world (demo_agent ''safe'' (Some (FFin 6 (- 7))))
     (Some ''safe'') (Some (FFin 4 (- 7))) safe_state =
   (Inr \<lparr>data_id = ''agent-1'', evm_wallet_address = PStr ''0xSafe'',
          privy_wallet_data = Some ''{safe}'', native_wallet_data = None,
          cdp_wallet_data = None\<rparr>,
    \<lparr>store = (store safe_state)(''agent-1'' :=
        \<lparr>data_id = ''agent-1'', evm_wallet_address = PStr ''0xSafe'',
          privy_wallet_data = Some ''{safe}'', native_wallet_data = None,
          cdp_wallet_data = None\<rparr>),
     trace = [EvCreatePrivySafeWallet
          \<lparr>arg_agent_id = ''agent-1'', arg_network_id = PStr ''base-mainnet'',
           arg_rpc_url = None, arg_weekly_spending_limit_usdc = Some (FFin 6 (- 7)),
           arg_existing_privy_wallet_id = PStr ''wallet-1'',
           arg_existing_privy_wallet_address = PStr ''0xOwner''\<rparr>,
        EvStoreWrite ''agent-1'']\<rparr>)"
  by (simp add: run_defs demo_defs)

text \<open>
  The claim as stated fails: \<^verbatim>\<open>4e-07\<close> and \<^verbatim>\<open>6e-07\<close> differ by less than
  \<^verbatim>\<open>0.000001\<close>, yet they quantise to \<^verbatim>\<open>0.000000\<close> and \<^verbatim>\<open>0.000001\<close>, so the limits
  are treated as changed and the limit-update path is entered.
\<close>

theorem limits_close_but_changed_counterexample:
  "\<bar>the (float_value (FFin 6 (- 7))) - the (float_value (FFin 4 (- 7)))\<bar> < 1 / 10 ^ 6
   \<and> quantize_limit (Some (FFin 4 (- 7))) = Inr (Some (DMicro 0))
   \<and> quantize_limit (Some (FFin 6 (- 7))) = Inr (Some (DMicro 1))
   \<and> safe_wallet_calls
        (trace (snd (process_agent_wallet demo_world (demo_agent ''safe'' (Some (FFin 6 (- 7))))
                       (Some ''safe'') (Some (FFin 4 (- 7))) safe_state))) =
       [\<lparr>arg_agent_id = ''agent-1'', arg_network_id = PStr ''base-mainnet'',
         arg_rpc_url = None, arg_weekly_spending_limit_usdc = Some (FFin 6 (- 7)),
         arg_existing_privy_wallet_id = PStr ''wallet-1'',
         arg_existing_privy_wallet_address = PStr ''0xOwner''\<rparr>]
   \<and> snd (process_agent_wallet demo_world (demo_agent ''safe'' (Some (FFin 6 (- 7))))
             (Some ''safe'') (Some (FFin 4 (- 7))) safe_state) \<noteq> safe_state"
  unfolding close_limits_run snd_conv
  by (simp add: quantize_limit_def micro_units_def round_half_even_div_def safe_state_def)

section \<open>Claims about the Safe allowance orchestrator\<close>

lemma enable_txs_append: "enable_txs (xs @ ys) = enable_txs xs @ enable_txs ys"
  by (induction xs rule: enable_txs.induct) auto

lemma limit_txs_append: "limit_txs (xs @ ys) = limit_txs xs @ limit_txs ys"
  by (induction xs rule: limit_txs.induct) auto

lemma nonce_queries_append: "nonce_queries (xs @ ys) = nonce_queries xs + nonce_queries ys"
  by (induction xs rule: nonce_queries.induct) auto

lemma limit_steps_append: "limit_steps (xs @ ys) = limit_steps xs @ limit_steps ys"
  by (induction xs rule: limit_steps.induct) auto

lemmas log_appends = enable_txs_append limit_txs_append nonce_queries_append limit_steps_append

lemma resolve_decimals_known:
  assumes "known_decimals network token td st = Some d"
  shows "\<exists>st1. resolve_decimals network token td st = (Inr d, st1)
           \<and> onchain st1 = onchain st
           \<and> calls st1 = calls st @ (if td = None \<and> decimals_cache st (token, network) = None
                                       then [QueryDecimals token network] else [])
           \<and> known_decimals network token td st1 = Some d"
  using assms
  by (auto simp: resolve_decimals_def known_decimals_def log_call_def Let_def
           split: option.splits)

lemma known_decimals_calls:
  "known_decimals network token td (s\<lparr>calls := c\<rparr>) = known_decimals network token td s"
  by (auto simp: known_decimals_def split: option.splits)

lemma known_decimals_onchain:
  "erc20_decimals ch = erc20_decimals (onchain s) \<Longrightarrow>
   known_decimals network token td (s\<lparr>onchain := ch\<rparr>) = known_decimals network token td s"
  by (auto simp: known_decimals_def split: option.splits)

text \<open>What a limit call does on a deployed Safe when the registry knows the network,
  the precision is known and the nonce, if supplied, is the Safe's next nonce.\<close>

lemma set_limit_run:
  assumes reg: "registry network = Some cfg"
      and acc: "safes (onchain st) safe = Some acc"
      and dec: "known_decimals network token td st = Some d"
      and non: "nonce = None \<or> nonce = Some (safe_nonce acc)"
  shows "\<exists>res st'. set_safe_token_spending_limit registry network safe token amount td nonce st
                     = (Inr res, st')
           \<and> next_nonce res = (if allowance_module_address cfg \<in> enabled_modules acc
                                then safe_nonce acc else safe_nonce acc + 1) + 1
           \<and> allowance_module_enabled res \<and> spending_limit_configured res
           \<and> calls st' = calls st @ [SetTokenLimit token nonce]
                @ (if td = None \<and> decimals_cache st (token, network) = None
                   then [QueryDecimals token network] else [])
                @ (if nonce = None then [QueryNonce safe] else [])
                @ [QueryModuleEnabled safe]
                @ (if allowance_module_address cfg \<in> enabled_modules acc then []
                   else [TxEnableModule safe (safe_nonce acc)])
                @ [TxSetLimit safe token (to_smallest_unit (fst amount) (snd amount) d)
                     (if allowance_module_address cfg \<in> enabled_modules acc
                      then safe_nonce acc else safe_nonce acc + 1)]
           \<and> safes (onchain st') = (safes (onchain st))
                (safe \<mapsto> acc\<lparr>enabled_modules := insert (allowance_module_address cfg)
                                                   (enabled_modules acc),
                               token_limits := (token_limits acc)
                                 (token \<mapsto> to_smallest_unit (fst amount) (snd amount) d),
                               safe_nonce := (if allowance_module_address cfg
                                                   \<in> enabled_modules acc
                                              then safe_nonce acc else safe_nonce acc + 1) + 1\<rparr>)
           \<and> erc20_decimals (onchain st') = erc20_decimals (onchain st)
           \<and> known_decimals network token td st' = Some d"
proof -
  let ?st0 = "log_call (SetTokenLimit token nonce) st"
  have dec0: "known_decimals network token td ?st0 = Some d"
    using dec by (auto simp: known_decimals_def log_call_def split: option.splits)
  from resolve_decimals_known[OF dec0] obtain st1 where
    r: "resolve_decimals network token td ?st0 = (Inr d, st1)"
    and o1: "onchain st1 = onchain st"
    and c1: "calls st1 = calls st @ [SetTokenLimit token nonce]
               @ (if td = None \<and> decimals_cache st (token, network) = None
                  then [QueryDecimals token network] else [])"
    and k1: "known_decimals network token td st1 = Some d"
    by (auto simp: log_call_def)
  show ?thesis
    using reg acc non r o1 c1
    apply (cases "allowance_module_address cfg \<in> enabled_modules acc"; cases nonce)
    by (auto simp: set_safe_token_spending_limit_def get_safe_nonce_def submit_def
          send_safe_tx_def is_module_enabled_def log_call_def Let_def insert_absorb
          known_decimals_calls known_decimals_onchain k1)
qed

lemma to_smallest_unit_exact:
  assumes "0 \<le> e + int d"
  shows "of_int (to_smallest_unit c e d) = the (float_value (FFin c e)) * 10 ^ d"
proof (cases "0 \<le> e")
  case True
  then have "nat (e + int d) = nat e + d"
    by simp
  then show ?thesis
    using True assms by (simp add: to_smallest_unit_def power_add)
next
  case False
  then have "d = nat (e + int d) + nat (- e)"
    using assms by simp
  then have "(10::rat) ^ d = 10 ^ nat (e + int d) * 10 ^ nat (- e)"
    by (metis power_add)
  then show ?thesis
    using False assms by (simp add: to_smallest_unit_def)
qed

lemmas orch_defs = set_safe_token_spending_limit_def deploy_safe_with_allowance_def
  resolve_decimals_def get_safe_nonce_def submit_def send_safe_tx_def is_module_enabled_def
  log_call_def to_smallest_unit_def fresh_safe_def Let_def

lemmas orch_demo_defs = demo_registry_def demo_predict_def demo_ostate_def demo_account_def

lemma demo_reg:
  "demo_registry ''test-network'' =
     Some \<lparr>chain_id = 123, rpc_url = ''http://rpc.url'',
           safe_singleton_address = ''0xSingleton'',
           allowance_module_address = ''0xModule'', usdc_address = ''0xUSDC''\<rparr>"
  by (simp add: demo_registry_def)

lemma demo_acc: "safes (onchain (demo_ostate (Some a))) ''0xSafe'' = Some a"
  by (simp add: demo_ostate_def)

lemma demo_dec: "known_decimals ''test-network'' token td (demo_ostate a) =
                   Some (case td of None \<Rightarrow> 6 | Some d \<Rightarrow> d)"
  by (simp add: known_decimals_def demo_ostate_def split: option.splits)

lemma demo_calls: "calls (demo_ostate a) = []"
  by (simp add: demo_ostate_def)

lemma demo_undeployed:
  "safes (onchain (demo_ostate None)) (demo_predict owner_address singleton) = None"
  by (simp add: demo_ostate_def)

lemma demo_deployed:
  "safes (onchain (demo_ostate (Some a))) (demo_predict owner_address singleton) = Some a"
  by (simp add: demo_ostate_def demo_predict_def)

text \<open>
  C7. A limit call on a deployed Safe of a registered network, with a known token
  precision \<open>d\<close> and a usable nonce, returns, and the one limit transaction it submits
  carries the human amount \<open>c \<times> 10\<^sup>e\<close> converted to \<open>to_smallest_unit c e d\<close>, which the
  chain then holds as the token's limit. Without an explicit or cached precision \<open>d\<close> is
  the token's on-chain precision. The conversion is integer arithmetic and exact whenever
  the amount is a whole number of smallest units: the result equals the amount times
  \<open>10\<^sup>d\<close>. In particular \<^verbatim>\<open>100.0\<close> at six decimals is \<open>100,000,000\<close>.
\<close>

theorem limit_amount_in_smallest_units:
  assumes reg: "registry network = Some cfg"
      and acc: "safes (onchain st) safe = Some acc"
      and dec: "known_decimals network token td st = Some d"
      and non: "nonce = None \<or> nonce = Some (safe_nonce acc)"
  shows "(\<exists>res st'. set_safe_token_spending_limit registry network safe token (c, e) td nonce st
                      = (Inr res, st')
            \<and> limit_txs (calls st') =
                limit_txs (calls st) @ [(token, to_smallest_unit c e d, next_nonce res - 1)]
            \<and> (\<exists>acc'. safes (onchain st') safe = Some acc'
                  \<and> token_limits acc' token = Some (to_smallest_unit c e d)))
       \<and> (td = None \<and> decimals_cache st (token, network) = None \<longrightarrow>
            erc20_decimals (onchain st) token = Some d)
       \<and> (0 \<le> e + int d \<longrightarrow>
            of_int (to_smallest_unit c e d) = the (float_value (FFin c e)) * 10 ^ d)
       \<and> to_smallest_unit 1000 (- 1) 6 = 100000000"
proof -
  from set_limit_run[where registry = registry and network = network and amount = "(c, e)",
         OF reg acc dec non]
  obtain res st' where
    run: "set_safe_token_spending_limit registry network safe token (c, e) td nonce st
            = (Inr res, st')"
    and nn: "next_nonce res = (if allowance_module_address cfg \<in> enabled_modules acc
                               then safe_nonce acc else safe_nonce acc + 1) + 1"
    and cs: "calls st' = calls st @ [SetTokenLimit token nonce]
                @ (if td = None \<and> decimals_cache st (token, network) = None
                   then [QueryDecimals token network] else [])
                @ (if nonce = None then [QueryNonce safe] else [])
                @ [QueryModuleEnabled safe]
                @ (if allowance_module_address cfg \<in> enabled_modules acc then []
                   else [TxEnableModule safe (safe_nonce acc)])
                @ [TxSetLimit safe token (to_smallest_unit c e d)
                     (if allowance_module_address cfg \<in> enabled_modules acc
                      then safe_nonce acc else safe_nonce acc + 1)]"
    and sf: "safes (onchain st') = (safes (onchain st))
                (safe \<mapsto> acc\<lparr>enabled_modules := insert (allowance_module_address cfg)
                                                   (enabled_modules acc),
                               token_limits := (token_limits acc)
                                  (token \<mapsto> to_smallest_unit c e d),
                               safe_nonce := (if allowance_module_address cfg
                                                   \<in> enabled_modules acc
                                               then safe_nonce acc else safe_nonce acc + 1) + 1\<rparr>)"
    by auto
  have l: "limit_txs (calls st') =
             limit_txs (calls st) @ [(token, to_smallest_unit c e d, next_nonce res - 1)]"
    unfolding cs nn by (simp add: log_appends)
  have a: "\<exists>acc'. safes (onchain st') safe = Some acc'
                  \<and> token_limits acc' token = Some (to_smallest_unit c e d)"
    unfolding sf by simp
  have onchain: "td = None \<and> decimals_cache st (token, network) = None \<longrightarrow>
            erc20_decimals (onchain st) token = Some d"
    using dec by (auto simp: known_decimals_def)
  have hundred: "to_smallest_unit 1000 (- 1) 6 = 100000000"
    by (simp add: to_smallest_unit_def)
  show ?thesis
    using run l a onchain hundred to_smallest_unit_exact[of e d c] by blast
qed

theorem limit_amount_in_smallest_units_witness:
  "\<exists>res st'. set_safe_token_spending_limit demo_registry ''test-network'' ''0xSafe''
                ''0x1111'' (1000, - 1) None (Some 3) (demo_ostate (Some (demo_account True 3)))
              = (Inr res, st')
      \<and> limit_txs (calls st') = [(''0x1111'', 100000000, next_nonce res - 1)]
      \<and> (\<exists>acc'. safes (onchain st') ''0xSafe'' = Some acc'
             \<and> token_limits acc' ''0x1111'' = Some 100000000)"
proof -
  have non: "Some 3 = None \<or> Some 3 = Some (safe_nonce (demo_account True 3))"
    by (simp add: demo_account_def)
  have dec: "known_decimals ''test-network'' ''0x1111'' None
               (demo_ostate (Some (demo_account True 3))) = Some 6"
    by (simp add: demo_dec)
  show ?thesis
    using limit_amount_in_smallest_units[where registry = demo_registry
            and network = "''test-network''" and c = 1000 and e = "- 1",
            OF demo_reg demo_acc dec non]
    by (auto simp: demo_calls)
qed

text \<open>
  C6. Two limit calls in sequence for the same token on the same deployed Safe, each
  with no nonce or with the Safe's next nonce (for the second call, the \<open>next_nonce\<close>
  the first returned). Both return. The first submits an enable-module transaction only
  if the module was not enabled, at the Safe's nonce; the second submits none. Each
  submits one limit transaction, the first at the nonce \<open>next_nonce r1 - 1\<close>, the second
  at \<open>next_nonce r1\<close>, and each returns its last consumed nonce plus one. After the
  second call the token's limit on the chain is the second amount.
\<close>

theorem sequential_limits_overwrite:
  assumes reg: "registry network = Some cfg"
      and acc: "safes (onchain st) safe = Some acc"
      and dec: "known_decimals network token td st = Some d"
      and non: "first_nonce = None \<or> first_nonce = Some (safe_nonce acc)"
  shows "\<exists>r1 st1.
           set_safe_token_spending_limit registry network safe token first_amount td first_nonce st
             = (Inr r1, st1)
         \<and> enable_txs (calls st1) = enable_txs (calls st)
              @ (if allowance_module_address cfg \<in> enabled_modules acc then []
                 else [safe_nonce acc])
         \<and> limit_txs (calls st1) = limit_txs (calls st)
              @ [(token, to_smallest_unit (fst first_amount) (snd first_amount) d, next_nonce r1 - 1)]
         \<and> next_nonce r1 = (if allowance_module_address cfg \<in> enabled_modules acc
                             then safe_nonce acc else safe_nonce acc + 1) + 1
         \<and> (\<forall>nonce2. nonce2 = None \<or> nonce2 = Some (next_nonce r1) \<longrightarrow>
               (\<exists>r2 st2.
                  set_safe_token_spending_limit registry network safe token next_amount td
                    nonce2 st1 = (Inr r2, st2)
                \<and> enable_txs (calls st2) = enable_txs (calls st1)
                \<and> limit_txs (calls st2) = limit_txs (calls st1)
                     @ [(token, to_smallest_unit (fst next_amount) (snd next_amount) d,
                         next_nonce r1)]
                \<and> next_nonce r2 = next_nonce r1 + 1
                \<and> (\<exists>acc2. safes (onchain st2) safe = Some acc2
                      \<and> token_limits acc2 token =
                          Some (to_smallest_unit (fst next_amount) (snd next_amount) d))))"
proof -
  let ?m = "allowance_module_address cfg"
  let ?k = "if ?m \<in> enabled_modules acc then safe_nonce acc else safe_nonce acc + 1"
  let ?a1 = "to_smallest_unit (fst first_amount) (snd first_amount) d"
  let ?a2 = "to_smallest_unit (fst next_amount) (snd next_amount) d"
  let ?acc1 = "acc\<lparr>enabled_modules := insert ?m (enabled_modules acc),
                    token_limits := (token_limits acc)(token \<mapsto> ?a1),
                    safe_nonce := ?k + 1\<rparr>"
  from set_limit_run[where registry = registry and network = network and amount = first_amount,
         OF reg acc dec non]
  obtain r1 st1 where
    run1: "set_safe_token_spending_limit registry network safe token first_amount td first_nonce st
             = (Inr r1, st1)"
    and nn1: "next_nonce r1 = ?k + 1"
    and cs1: "calls st1 = calls st @ [SetTokenLimit token first_nonce]
                @ (if td = None \<and> decimals_cache st (token, network) = None
                   then [QueryDecimals token network] else [])
                @ (if first_nonce = None then [QueryNonce safe] else [])
                @ [QueryModuleEnabled safe]
                @ (if ?m \<in> enabled_modules acc then []
                   else [TxEnableModule safe (safe_nonce acc)])
                @ [TxSetLimit safe token ?a1 ?k]"
    and sf1: "safes (onchain st1) = (safes (onchain st))(safe \<mapsto> ?acc1)"
    and dec1: "known_decimals network token td st1 = Some d"
    by auto
  have e1: "enable_txs (calls st1) = enable_txs (calls st)
              @ (if ?m \<in> enabled_modules acc then [] else [safe_nonce acc])"
    unfolding cs1 by (simp add: log_appends)
  have l1: "limit_txs (calls st1) = limit_txs (calls st) @ [(token, ?a1, next_nonce r1 - 1)]"
    unfolding cs1 nn1 by (simp add: log_appends)
  have acc1: "safes (onchain st1) safe = Some ?acc1"
    unfolding sf1 by simp
  have second: "\<exists>r2 st2.
                  set_safe_token_spending_limit registry network safe token next_amount td
                    nonce2 st1 = (Inr r2, st2)
                \<and> enable_txs (calls st2) = enable_txs (calls st1)
                \<and> limit_txs (calls st2) = limit_txs (calls st1)
                     @ [(token, ?a2, next_nonce r1)]
                \<and> next_nonce r2 = next_nonce r1 + 1
                \<and> (\<exists>acc2. safes (onchain st2) safe = Some acc2
                      \<and> token_limits acc2 token = Some ?a2)"
    if n2: "nonce2 = None \<or> nonce2 = Some (next_nonce r1)" for nonce2
  proof -
    have non2: "nonce2 = None \<or> nonce2 = Some (safe_nonce ?acc1)"
      using n2 nn1 by simp
    from set_limit_run[where registry = registry and network = network and amount = next_amount,
           OF reg acc1 dec1 non2]
    obtain r2 st2 where
      run2: "set_safe_token_spending_limit registry network safe token next_amount td nonce2 st1
               = (Inr r2, st2)"
      and nn2: "next_nonce r2 = ?k + 1 + 1"
      and cs2: "calls st2 = calls st1 @ [SetTokenLimit token nonce2]
                @ (if td = None \<and> decimals_cache st1 (token, network) = None
                   then [QueryDecimals token network] else [])
                @ (if nonce2 = None then [QueryNonce safe] else [])
                @ [QueryModuleEnabled safe]
                @ [TxSetLimit safe token ?a2 (?k + 1)]"
      and sf2: "safes (onchain st2) = (safes (onchain st1))
                  (safe \<mapsto> ?acc1\<lparr>enabled_modules := insert ?m (enabled_modules ?acc1),
                                  token_limits := (token_limits ?acc1)(token \<mapsto> ?a2),
                                  safe_nonce := ?k + 1 + 1\<rparr>)"
      by auto
    have e2: "enable_txs (calls st2) = enable_txs (calls st1)"
      unfolding cs2 by (simp add: log_appends)
    have l2: "limit_txs (calls st2) = limit_txs (calls st1) @ [(token, ?a2, next_nonce r1)]"
      unfolding cs2 nn1 by (simp add: log_appends)
    have a2: "\<exists>acc2. safes (onchain st2) safe = Some acc2 \<and> token_limits acc2 token = Some ?a2"
      unfolding sf2 by simp
    show ?thesis
      using run2 e2 l2 nn2 nn1 a2 by auto
  qed
  show ?thesis
    using run1 e1 l1 nn1 second by blast
qed

theorem sequential_limits_overwrite_witness:
  "\<exists>r1 st1 r2 st2.
      set_safe_token_spending_limit demo_registry ''test-network'' ''0xSafe'' ''0x1111''
        (1000, - 1) (Some 6) (Some 7) (demo_ostate (Some (demo_account False 7)))
        = (Inr r1, st1)
    \<and> set_safe_token_spending_limit demo_registry ''test-network'' ''0xSafe'' ''0x1111''
        (2500, - 1) (Some 6) (Some 9) st1 = (Inr r2, st2)
    \<and> enable_txs (calls st2) = [7]
    \<and> limit_txs (calls st2) = [(''0x1111'', 100000000, 8), (''0x1111'', 250000000, 9)]
    \<and> next_nonce r1 = 9 \<and> next_nonce r2 = 10
    \<and> (\<exists>acc2. safes (onchain st2) ''0xSafe'' = Some acc2
           \<and> token_limits acc2 ''0x1111'' = Some 250000000)"
proof -
  have non: "Some 7 = None \<or> Some 7 = Some (safe_nonce (demo_account False 7))"
    by (simp add: demo_account_def)
  have dec: "known_decimals ''test-network'' ''0x1111'' (Some 6)
               (demo_ostate (Some (demo_account False 7))) = Some 6"
    by (simp add: demo_dec)
  note th = sequential_limits_overwrite[where registry = demo_registry
         and network = "''test-network''" and first_amount = "(1000, - 1)"
         and next_amount = "(2500, - 1)", OF demo_reg demo_acc dec non]
  show ?thesis
    using th
    apply (elim exE conjE)
    subgoal for r1 st1
      apply (drule spec[of _ "Some 9"])
      apply (auto simp: demo_calls demo_account_def to_smallest_unit_def)
      done
    done
qed

text \<open>
  C3. Deploying with allowance for an undeployed Safe of a registered network, the
  precision of the reference stablecoin being known. The call returns with status
  \<open>limit_configured\<close> and the predicted address; the enable-module transaction has nonce
  0, the limit transaction has nonce 1 and is for the registry's stablecoin, and
  \<open>next_nonce\<close> is 2. The limit step is entered exactly once, with starting nonce 0 and
  that token, and the chain is not asked for a nonce.
\<close>

theorem deploy_undeployed_nonces:
  assumes reg: "registry network = Some cfg"
      and und: "safes (onchain st) (predict owner_address (safe_singleton_address cfg)) = None"
      and dec: "known_decimals network (usdc_address cfg) None st = Some d"
  shows "\<exists>rec st'.
           deploy_safe_with_allowance registry predict owner_address network amount st
             = (Inr rec, st')
         \<and> smart_wallet_address rec = predict owner_address (safe_singleton_address cfg)
         \<and> status rec = ''limit_configured''
         \<and> enable_txs (calls st') = enable_txs (calls st) @ [0]
         \<and> limit_txs (calls st') = limit_txs (calls st)
              @ [(usdc_address cfg, to_smallest_unit (fst amount) (snd amount) d, 1)]
         \<and> next_nonce (limit rec) = 2
         \<and> limit_steps (calls st') = limit_steps (calls st) @ [(usdc_address cfg, Some 0)]
         \<and> nonce_queries (calls st') = nonce_queries (calls st)"
proof -
  let ?safe = "predict owner_address (safe_singleton_address cfg)"
  let ?st3 = "st\<lparr>calls := calls st @ [QueryDeployed ?safe, TxDeploy ?safe],
                  onchain := (onchain st)\<lparr>safes := (safes (onchain st))(?safe \<mapsto> fresh_safe)\<rparr>\<rparr>"
  have acc3: "safes (onchain ?st3) ?safe = Some fresh_safe"
    by simp
  have dec3: "known_decimals network (usdc_address cfg) None ?st3 = Some d"
    using dec by (auto simp: known_decimals_def split: option.splits)
  have non3: "Some 0 = None \<or> Some 0 = Some (safe_nonce fresh_safe)"
    by (simp add: fresh_safe_def)
  from set_limit_run[where registry = registry and network = network and amount = amount,
         OF reg acc3 dec3 non3]
  obtain res st' where
    run: "set_safe_token_spending_limit registry network ?safe (usdc_address cfg) amount
            None (Some 0) ?st3 = (Inr res, st')"
    and nn: "next_nonce res = 2"
    and cs: "calls st' = calls st @ [QueryDeployed ?safe, TxDeploy ?safe]
               @ [SetTokenLimit (usdc_address cfg) (Some 0)]
               @ (if decimals_cache st (usdc_address cfg, network) = None
                  then [QueryDecimals (usdc_address cfg) network] else [])
               @ [QueryModuleEnabled ?safe]
               @ [TxEnableModule ?safe 0]
               @ [TxSetLimit ?safe (usdc_address cfg)
                    (to_smallest_unit (fst amount) (snd amount) d) 1]"
    by (auto simp: fresh_safe_def)
  have d: "deploy_safe_with_allowance registry predict owner_address network amount st
             = (Inr \<lparr>smart_wallet_address = ?safe, status = ''limit_configured'',
                     limit = res\<rparr>, st')"
    using reg und run
    by (simp add: deploy_safe_with_allowance_def log_call_def Let_def)
  show ?thesis
    unfolding d using nn by (simp add: cs log_appends)
qed

theorem deploy_undeployed_nonces_witness:
  "\<exists>rec st'.
      deploy_safe_with_allowance demo_registry demo_predict ''0xOwner'' ''test-network''
        (1000, - 1) (demo_ostate None) = (Inr rec, st')
    \<and> enable_txs (calls st') = [0]
    \<and> limit_txs (calls st') = [(''0xUSDC'', 100000000, 1)]
    \<and> next_nonce (limit rec) = 2
    \<and> limit_steps (calls st') = [(''0xUSDC'', Some 0)]
    \<and> nonce_queries (calls st') = 0"
proof -
  have dec: "known_decimals ''test-network''
               (usdc_address \<lparr>chain_id = 123, rpc_url = ''http://rpc.url'',
                  safe_singleton_address = ''0xSingleton'',
                  allowance_module_address = ''0xModule'', usdc_address = ''0xUSDC''\<rparr>)
               None (demo_ostate None) = Some 6"
    by (simp add: demo_dec)
  show ?thesis
    using deploy_undeployed_nonces[where registry = demo_registry
            and network = "''test-network''" and predict = demo_predict
            and owner_address = "''0xOwner''" and amount = "(1000, - 1)",
            OF demo_reg demo_undeployed dec]
    by (auto simp: demo_calls to_smallest_unit_def)
qed

text \<open>
  C4 (amended). Deploying with allowance for an already deployed Safe whose next nonce
  is \<open>N\<close>. The call returns, asks the chain for the nonce exactly once and enters the
  limit step once with starting nonce \<open>N\<close>. If the allowance module is already enabled, no
  enable-module transaction is submitted, the limit transaction has nonce \<open>N\<close> and
  \<open>next_nonce\<close> is \<open>N + 1\<close>. If it is not, the module is enabled at nonce \<open>N\<close>, the limit
  transaction has nonce \<open>N + 1\<close> and \<open>next_nonce\<close> is \<open>N + 2\<close>.
\<close>

theorem deploy_deployed_nonces:
  assumes reg: "registry network = Some cfg"
      and dep: "safes (onchain st) (predict owner_address (safe_singleton_address cfg)) = Some acc"
      and dec: "known_decimals network (usdc_address cfg) None st = Some d"
  shows "\<exists>rec st'.
           deploy_safe_with_allowance registry predict owner_address network amount st
             = (Inr rec, st')
         \<and> nonce_queries (calls st') = nonce_queries (calls st) + 1
         \<and> limit_steps (calls st') =
              limit_steps (calls st) @ [(usdc_address cfg, Some (safe_nonce acc))]
         \<and> (allowance_module_address cfg \<in> enabled_modules acc \<longrightarrow>
              enable_txs (calls st') = enable_txs (calls st)
              \<and> limit_txs (calls st') = limit_txs (calls st)
                   @ [(usdc_address cfg, to_smallest_unit (fst amount) (snd amount) d,
                       safe_nonce acc)]
              \<and> next_nonce (limit rec) = safe_nonce acc + 1)
         \<and> (allowance_module_address cfg \<notin> enabled_modules acc \<longrightarrow>
              enable_txs (calls st') = enable_txs (calls st) @ [safe_nonce acc]
              \<and> limit_txs (calls st') = limit_txs (calls st)
                   @ [(usdc_address cfg, to_smallest_unit (fst amount) (snd amount) d,
                       safe_nonce acc + 1)]
              \<and> next_nonce (limit rec) = safe_nonce acc + 2)"
proof -
  let ?safe = "predict owner_address (safe_singleton_address cfg)"
  let ?st2 = "st\<lparr>calls := calls st @ [QueryDeployed ?safe, QueryNonce ?safe]\<rparr>"
  have acc2: "safes (onchain ?st2) ?safe = Some acc"
    using dep by simp
  have dec2: "known_decimals network (usdc_address cfg) None ?st2 = Some d"
    using dec by (simp add: known_decimals_calls)
  have non2: "Some (safe_nonce acc) = None \<or> Some (safe_nonce acc) = Some (safe_nonce acc)"
    by simp
  from set_limit_run[where registry = registry and network = network and amount = amount,
         OF reg acc2 dec2 non2]
  obtain res st' where
    run: "set_safe_token_spending_limit registry network ?safe (usdc_address cfg) amount
            None (Some (safe_nonce acc)) ?st2 = (Inr res, st')"
    and nn: "next_nonce res = (if allowance_module_address cfg \<in> enabled_modules acc
                               then safe_nonce acc else safe_nonce acc + 1) + 1"
    and cs: "calls st' = calls st @ [QueryDeployed ?safe, QueryNonce ?safe]
               @ [SetTokenLimit (usdc_address cfg) (Some (safe_nonce acc))]
               @ (if decimals_cache st (usdc_address cfg, network) = None
                  then [QueryDecimals (usdc_address cfg) network] else [])
               @ [QueryModuleEnabled ?safe]
               @ (if allowance_module_address cfg \<in> enabled_modules acc then []
                  else [TxEnableModule ?safe (safe_nonce acc)])
               @ [TxSetLimit ?safe (usdc_address cfg)
                    (to_smallest_unit (fst amount) (snd amount) d)
                    (if allowance_module_address cfg \<in> enabled_modules acc
                     then safe_nonce acc else safe_nonce acc + 1)]"
    by auto
  have d: "deploy_safe_with_allowance registry predict owner_address network amount st
             = (Inr \<lparr>smart_wallet_address = ?safe, status = ''limit_configured'',
                     limit = res\<rparr>, st')"
    using reg dep run
    by (simp add: deploy_safe_with_allowance_def get_safe_nonce_def log_call_def Let_def)
  show ?thesis
    unfolding d using nn by (simp add: cs log_appends)
qed

theorem deploy_deployed_nonces_witness:
  "\<exists>rec st'.
      deploy_safe_with_allowance demo_registry demo_predict ''0xOwner'' ''test-network''
        (1000, - 1) (demo_ostate (Some (demo_account True 5))) = (Inr rec, st')
    \<and> nonce_queries (calls st') = 1
    \<and> limit_steps (calls st') = [(''0xUSDC'', Some 5)]
    \<and> enable_txs (calls st') = []
    \<and> limit_txs (calls st') = [(''0xUSDC'', 100000000, 5)]
    \<and> next_nonce (limit rec) = 6"
proof -
  have dec: "known_decimals ''test-network''
               (usdc_address \<lparr>chain_id = 123, rpc_url = ''http://rpc.url'',
                  safe_singleton_address = ''0xSingleton'',
                  allowance_module_address = ''0xModule'', usdc_address = ''0xUSDC''\<rparr>)
               None (demo_ostate (Some (demo_account True 5))) = Some 6"
    by (simp add: demo_dec)
  show ?thesis
    using deploy_deployed_nonces[where registry = demo_registry
            and network = "''test-network''" and predict = demo_predict
            and owner_address = "''0xOwner''" and amount = "(1000, - 1)",
            OF demo_reg demo_deployed dec]
    by (auto simp: demo_calls demo_account_def to_smallest_unit_def)
qed

text \<open>
  The claim as stated fails for a deployed Safe on which the module is not yet enabled
  (the state \<open>safe_deployed\<close> of section 4.3): at nonce 5 the module-enable step is not
  skipped but consumes nonce 5, the limit transaction consumes 6 and \<open>next_nonce\<close> is 7.
\<close>

theorem deployed_module_disabled_counterexample:
  "safes (onchain (demo_ostate (Some (demo_account False 5))))
     (demo_predict ''0xOwner'' ''0xSingleton'') = Some (demo_account False 5)
   \<and> safe_nonce (demo_account False 5) = 5
   \<and> enable_txs (calls (snd (deploy_safe_with_allowance demo_registry demo_predict ''0xOwner''
        ''test-network'' (1000, - 1) (demo_ostate (Some (demo_account False 5)))))) = [5]
   \<and> limit_txs (calls (snd (deploy_safe_with_allowance demo_registry demo_predict ''0xOwner''
        ''test-network'' (1000, - 1) (demo_ostate (Some (demo_account False 5))))))
       = [(''0xUSDC'', 100000000, 6)]
   \<and> map_sum id (\<lambda>r. next_nonce (limit r))
        (fst (deploy_safe_with_allowance demo_registry demo_predict ''0xOwner''
           ''test-network'' (1000, - 1) (demo_ostate (Some (demo_account False 5))))) = Inr 7"
  by (simp add: orch_defs orch_demo_defs)

end
